theory Spec2Isabelle
  imports Main "HOL-Library.AList" "HOL-Library.Sublist"
begin

section \<open>Values\<close>

text \<open>
  The program (\<^verbatim>\<open>chatbot-messe.py\<close>) keeps its profile in a Python dict that is read
  from and written to a JSON file, and merges JSON returned by a language model into it.
  A JSON value is modelled by the datatype below.  Numbers are integers (a float is
  truthy, iterable and hashable exactly as the integer is in every operation modelled
  here).  \<open>JObj\<close> lists the items of the parsed dict in order; \<open>JNull\<close> is Python's
  \<^verbatim>\<open>None\<close>.  A string is the list of its characters.
\<close>

datatype json =
    JNull
  | JBool bool
  | JNum int
  | JStr string
  | JArr "json list"
  | JObj "(string \<times> json) list"

text \<open>The exceptions that the modelled code can raise; \<open>APIError\<close> is the failure of
  an external call (language model, HTTP, IMAP, SMTP).\<close>

datatype error =
    KeyError
  | IndexError
  | TypeError
  | ValueError
  | AttributeError
  | JSONDecodeError
  | APIError

text \<open>Sequencing of steps that may raise.\<close>

fun bind_err :: "error + 'a \<Rightarrow> ('a \<Rightarrow> error + 'b) \<Rightarrow> error + 'b" where
  "bind_err (Inl e) f = Inl e"
| "bind_err (Inr x) f = f x"

text \<open>Python truthiness (\<^verbatim>\<open>if x\<close>, \<^verbatim>\<open>not x\<close>).\<close>

fun truthy :: "json \<Rightarrow> bool" where
  "truthy JNull = False"
| "truthy (JBool b) = b"
| "truthy (JNum n) = (n \<noteq> 0)"
| "truthy (JStr s) = (s \<noteq> [])"
| "truthy (JArr xs) = (xs \<noteq> [])"
| "truthy (JObj kvs) = (kvs \<noteq> [])"

subsection \<open>Dicts\<close>

text \<open>
  A Python dict is an association list in insertion order.  Its keys are hashable values:
  the dicts of the profile come from JSON objects and have string keys, but
  \<^verbatim>\<open>dict.update\<close> with a sequence of pairs may insert a number, a boolean or
  \<^verbatim>\<open>None\<close> as a key.  Python identifies the keys \<^verbatim>\<open>True\<close> and \<^verbatim>\<open>1\<close>
  (and \<^verbatim>\<open>False\<close> and \<^verbatim>\<open>0\<close>); \<open>hkey\<close> is the representative under which a key
  is stored and looked up.
\<close>

type_synonym pydict = "(json \<times> json) list"

fun hashable :: "json \<Rightarrow> bool" where
  "hashable (JArr xs) = False"
| "hashable (JObj kvs) = False"
| "hashable j = True"

fun hkey :: "json \<Rightarrow> json" where
  "hkey (JBool b) = JNum (if b then 1 else 0)"
| "hkey j = j"

text \<open>\<^verbatim>\<open>d[k] = v\<close> for a hashable key.\<close>

definition dict_set :: "json \<Rightarrow> json \<Rightarrow> pydict \<Rightarrow> pydict" where
  "dict_set k v d = AList.update (hkey k) v d"

text \<open>\<^verbatim>\<open>d.get(k)\<close> for a string key: \<^verbatim>\<open>None\<close> when the key is absent.\<close>

definition dict_get :: "pydict \<Rightarrow> string \<Rightarrow> json" where
  "dict_get d k = (case map_of d (JStr k) of None \<Rightarrow> JNull | Some v \<Rightarrow> v)"

text \<open>\<^verbatim>\<open>k in d\<close> for a string key.\<close>

definition dict_has :: "pydict \<Rightarrow> string \<Rightarrow> bool" where
  "dict_has d k = (map_of d (JStr k) \<noteq> None)"

text \<open>
  \<^verbatim>\<open>d.update(x)\<close> for a JSON value \<open>x\<close>: the dict after the call and the exception,
  if one was raised.  A dict argument is merged item by item.  Any other argument is
  iterated as a sequence of pairs: each element is converted to a sequence, which must
  have length two, and its first component is stored as the key.  The elements before
  the one that raises have been stored.  A string argument yields its characters, which
  have length one; a number, a boolean or \<^verbatim>\<open>None\<close> is not iterable.
\<close>

fun pair_of :: "json \<Rightarrow> error + (json \<times> json)" where
  "pair_of (JArr [k, v]) = Inr (k, v)"
| "pair_of (JArr xs) = Inl ValueError"
| "pair_of (JStr [c, d]) = Inr (JStr [c], JStr [d])"
| "pair_of (JStr s) = Inl ValueError"
| "pair_of (JObj [(k, v), (k', v')]) = Inr (JStr k, JStr k')"
| "pair_of (JObj kvs) = Inl ValueError"
| "pair_of j = Inl TypeError"

fun update_seq :: "pydict \<Rightarrow> json list \<Rightarrow> pydict \<times> error option" where
  "update_seq d [] = (d, None)"
| "update_seq d (x # xs) =
    (case pair_of x of
       Inl e \<Rightarrow> (d, Some e)
     | Inr (k, v) \<Rightarrow>
         if hashable k then update_seq (dict_set k v d) xs else (d, Some TypeError))"

fun dict_update :: "pydict \<Rightarrow> json \<Rightarrow> pydict \<times> error option" where
  "dict_update d (JObj kvs) = (fold (\<lambda>(k, v). dict_set (JStr k) v) kvs d, None)"
| "dict_update d (JArr xs) = update_seq d xs"
| "dict_update d (JStr s) = (d, if s = [] then None else Some ValueError)"
| "dict_update d j = (d, Some TypeError)"

text \<open>\<^verbatim>\<open>k in x\<close> for a string \<open>k\<close> and a JSON value \<open>x\<close>: a key of a dict, an element
  of a list, a substring of a string.\<close>

fun py_contains :: "string \<Rightarrow> json \<Rightarrow> error + bool" where
  "py_contains k (JObj kvs) = Inr (k \<in> fst ` set kvs)"
| "py_contains k (JArr xs) = Inr (JStr k \<in> set xs)"
| "py_contains k (JStr s) = Inr (sublist k s)"
| "py_contains k j = Inl TypeError"

text \<open>\<^verbatim>\<open>x[k]\<close> for a string \<open>k\<close>.\<close>

fun item_str :: "json \<Rightarrow> string \<Rightarrow> error + json" where
  "item_str (JObj kvs) k = (case map_of kvs k of None \<Rightarrow> Inl KeyError | Some v \<Rightarrow> Inr v)"
| "item_str j k = Inl TypeError"

text \<open>\<^verbatim>\<open>x[0]\<close>; a JSON object has string keys only.\<close>

fun item_0 :: "json \<Rightarrow> error + json" where
  "item_0 (JArr []) = Inl IndexError"
| "item_0 (JArr (x # xs)) = Inr x"
| "item_0 (JStr []) = Inl IndexError"
| "item_0 (JStr (c # cs)) = Inr (JStr [c])"
| "item_0 (JObj kvs) = Inl KeyError"
| "item_0 j = Inl TypeError"

text \<open>Truthiness of an optional string
  (\<^verbatim>\<open>WEATHER_API_KEY\<close>, \<^verbatim>\<open>email_text\<close>, \<^verbatim>\<open>pending_question\<close>).\<close>

fun has_text :: "string option \<Rightarrow> bool" where
  "has_text None = False"
| "has_text (Some s) = (s \<noteq> [])"

subsection \<open>Sets of strings\<close>

text \<open>
  \<^verbatim>\<open>questions_asked\<close> and \<^verbatim>\<open>topics_discussed\<close> are Python sets while the program
  runs and lists in the JSON file (\<^verbatim>\<open>save_memory\<close> replaces them in place by lists,
  \<^verbatim>\<open>load_memory\<close> turns lists back into sets).  A set is represented by its elements
  in iteration order.  Python does not fix that order, so properties are stated on
  \<open>elems\<close> only.
\<close>

datatype coll = PySet "string list" | PyList "string list"

fun elems :: "coll \<Rightarrow> string set" where
  "elems (PySet xs) = set xs"
| "elems (PyList xs) = set xs"

text \<open>\<^verbatim>\<open>x in c\<close>\<close>

definition coll_mem :: "string \<Rightarrow> coll \<Rightarrow> bool" where
  "coll_mem x c = (x \<in> elems c)"

text \<open>\<^verbatim>\<open>c.add(x)\<close>: a list has no \<^verbatim>\<open>add\<close>.\<close>

fun coll_add :: "string \<Rightarrow> coll \<Rightarrow> error + coll" where
  "coll_add x (PySet xs) = Inr (PySet (if x \<in> set xs then xs else xs @ [x]))"
| "coll_add x (PyList xs) = Inl AttributeError"

text \<open>\<^verbatim>\<open>list(c)\<close>\<close>

fun to_list :: "coll \<Rightarrow> coll" where
  "to_list (PySet xs) = PyList xs"
| "to_list (PyList xs) = PyList xs"

text \<open>\<^verbatim>\<open>set(c)\<close>\<close>

fun to_set :: "coll \<Rightarrow> coll" where
  "to_set (PySet xs) = PySet xs"
| "to_set (PyList xs) = PySet (remdups xs)"

section \<open>The profile\<close>

text \<open>
  The memory dict, with the keys of the default structure of \<^verbatim>\<open>load_memory\<close> and
  \<^verbatim>\<open>pending_question\<close>, which the default structure lacks and
  \<^verbatim>\<open>build_daily_email_content\<close> adds: \<open>None\<close> is the absent key or the value
  \<^verbatim>\<open>None\<close>, which \<^verbatim>\<open>memory.get("pending_question")\<close> does not tell apart.
  Timestamps are ISO strings.
\<close>

record memory =
  user_info :: pydict
  core_attributes :: pydict
  conversation_history :: "json list"
  topics_discussed :: coll
  questions_asked :: coll
  last_interaction :: "string option"
  weather_context :: json
  pending_question :: "string option"

section \<open>Question planner\<close>

definition location_questions :: "string list" where
  "location_questions =
    [''I'd love to know what city/area you live in! It would help me share more relevant updates and chat about local happenings.'',
     ''I'm always curious about different places - where are you writing from?'',
     ''I'd love to add some local context to our chats. Which city/area do you call home?'',
     ''Speaking of places, I'd love to know where you're based! What city/area are you in?'',
     ''I bet there are interesting things happening in your area! Where are you located?'']"

definition location_fallback :: string where
  "location_fallback =
    ''I notice I still don't know where you're based - I'd love to make our conversations more locally relevant. What city/area are you in?''"

definition basic_questions :: "(string \<times> string) list" where
  "basic_questions =
    [(''name'', ''I'd love to know what you prefer to be called. What name should I use?''),
     (''interests'', ''I'm curious about what interests you. What are some things you enjoy doing?''),
     (''work'', ''What kind of work do you do?''),
     (''learning'', ''Is there anything specific you're learning or want to learn about lately?''),
     (''goals'', ''Do you have any particular goals you're working towards?''),
     (''news_preferences'', ''Are there specific types of news topics you're most interested in?''),
     (''fun_facts'', ''Do you have any favorite topics for the random facts I share?'')]"

text \<open>
  \<^verbatim>\<open>get_next_question(memory)\<close>.  The three questions that interpolate the location
  format it with Python's \<^verbatim>\<open>str\<close>; its rendering of a value that is not a string
  belongs to the interpreter and is the parameter \<open>py_str\<close>.  The result \<open>None\<close> is
  Python's \<^verbatim>\<open>None\<close>.
\<close>

definition get_next_question :: "(json \<Rightarrow> string) \<Rightarrow> memory \<Rightarrow> string option" where
  "get_next_question py_str m =
    (let core = core_attributes m in
     if \<not> truthy (dict_get core ''location'') then
       (let asked = questions_asked m in
        case find (\<lambda>question. \<not> coll_mem question asked) location_questions of
          Some question \<Rightarrow> Some question
        | None \<Rightarrow> Some location_fallback)
     else if \<not> truthy (dict_get core ''timezone'') then
       Some ''To help me time these emails better, could you let me know what timezone you're in?''
     else if \<not> truthy (dict_get core ''weather_preference'') then
       Some (''How do you typically feel about the weather in '' @ py_str (dict_get core ''location'')
             @ ''? Any favorite conditions?'')
     else if \<not> truthy (dict_get core ''daily_routine'') then
       Some ''Are you more of an early bird or a night owl? I want to make sure I'm catching you at a good time!''
     else if \<not> truthy (dict_get core ''local_interests'') then
       Some (''What kind of local activities or spots do you enjoy in '' @ py_str (dict_get core ''location'')
             @ ''?'')
     else if \<not> truthy (dict_get core ''season_preference'') then
       Some (''With the weather patterns in '' @ py_str (dict_get core ''location'')
             @ '', do you have a favorite season? What makes it special?'')
     else if has_text (pending_question m) then None
     else
       map_option snd
         (find (\<lambda>(topic, question).
                  \<not> dict_has (user_info m) topic \<and> \<not> coll_mem question (questions_asked m))
               basic_questions))"

text \<open>The structure with which \<^verbatim>\<open>load_memory\<close> starts when there is no usable file.\<close>

definition default_memory :: memory where
  "default_memory =
    \<lparr>user_info = [],
     core_attributes =
       [(JStr ''location'', JNull),
        (JStr ''timezone'', JNull),
        (JStr ''weather_preference'', JNull),
        (JStr ''daily_routine'', JNull),
        (JStr ''local_interests'', JNull),
        (JStr ''season_preference'', JNull)],
     conversation_history = [],
     topics_discussed = PySet [],
     questions_asked = PySet [],
     last_interaction = None,
     weather_context = JObj [(''last_checked'', JNull), (''conditions'', JNull)],
     pending_question = None\<rparr>"

text \<open>A rendering that agrees with \<^verbatim>\<open>str\<close> on strings, for evaluating examples
  whose interpolated values are strings.\<close>

fun plain_str :: "json \<Rightarrow> string" where
  "plain_str (JStr s) = s"
| "plain_str j = []"

text \<open>The six core attributes, in the order in which the planner asks for them.\<close>

definition core_keys :: "string list" where
  "core_keys =
    [''location'', ''timezone'', ''weather_preference'', ''daily_routine'',
     ''local_interests'', ''season_preference'']"

section \<open>Weather\<close>

text \<open>
  What the outside world answers during one call of \<^verbatim>\<open>get_weather_context\<close>:
  \<open>geo_reply\<close> and \<open>weather_reply\<close> are the outcomes of
  \<^verbatim>\<open>requests.get(...).json()\<close> for the geocoding and the weather request, and
  \<open>zone_time\<close> is the formatted local time, \<open>None\<close> when \<^verbatim>\<open>ZoneInfo(timezone)\<close>
  raises.
\<close>

record weather_io =
  geo_reply :: "error + json"
  weather_reply :: "error + json"
  zone_time :: "string option"

text \<open>What a function does to the outside world, in order: the external calls it makes
  and the errors it logs.\<close>

datatype event = Chat_completion | Geo_request | Weather_request | Log_error

definition weather_at :: "json \<Rightarrow> string \<Rightarrow> error + json" where
  "weather_at data k =
    bind_err (item_str data ''weather'') (\<lambda>w. bind_err (item_0 w) (\<lambda>w0. item_str w0 k))"

definition main_at :: "json \<Rightarrow> string \<Rightarrow> error + json" where
  "main_at data k = bind_err (item_str data ''main'') (\<lambda>m. item_str m k)"

text \<open>\<^verbatim>\<open>None\<close> or a string, as a JSON value.\<close>

fun json_of_opt :: "string option \<Rightarrow> json" where
  "json_of_opt None = JNull"
| "json_of_opt (Some t) = JStr t"

text \<open>The dict that \<^verbatim>\<open>get_weather_context\<close> returns, built from the weather reply.\<close>

definition weather_dict :: "json \<Rightarrow> string option \<Rightarrow> error + json" where
  "weather_dict data local_time =
    bind_err (weather_at data ''main'') (\<lambda>condition.
    bind_err (weather_at data ''description'') (\<lambda>description.
    bind_err (main_at data ''temp'') (\<lambda>temp.
    bind_err (main_at data ''feels_like'') (\<lambda>feels_like.
    bind_err (main_at data ''humidity'') (\<lambda>humidity.
    Inr (JObj
      [(''condition'', condition),
       (''description'', description),
       (''temp'', temp),
       (''feels_like'', feels_like),
       (''humidity'', humidity),
       (''local_time'', json_of_opt local_time)]))))))"

text \<open>\<^verbatim>\<open>lat = geo_data[0]["lat"]\<close> and \<^verbatim>\<open>lon = geo_data[0]["lon"]\<close>\<close>

definition coordinates :: "json \<Rightarrow> error + (json \<times> json)" where
  "coordinates geo_data =
    bind_err (item_0 geo_data) (\<lambda>g. bind_err (item_str g ''lat'') (\<lambda>lat.
    bind_err (item_0 geo_data) (\<lambda>g'. bind_err (item_str g' ''lon'') (\<lambda>lon.
    Inr (lat, lon)))))"

text \<open>
  \<^verbatim>\<open>get_weather_context(location, timezone)\<close> with the global
  \<^verbatim>\<open>WEATHER_API_KEY\<close> as first argument.  Every exception is caught and logged, and
  \<^verbatim>\<open>None\<close> is returned.
\<close>

definition get_weather_context ::
  "string option \<Rightarrow> json \<Rightarrow> json \<Rightarrow> weather_io \<Rightarrow> json option \<times> event list" where
  "get_weather_context WEATHER_API_KEY location timezone io =
    (if \<not> has_text WEATHER_API_KEY \<or> \<not> truthy location then (None, [])
     else
       (case geo_reply io of
          Inl e \<Rightarrow> (None, [Geo_request, Log_error])
        | Inr geo_data \<Rightarrow>
            if \<not> truthy geo_data then (None, [Geo_request])
            else
              (case coordinates geo_data of
                 Inl e \<Rightarrow> (None, [Geo_request, Log_error])
               | Inr latlon \<Rightarrow>
                   (case weather_reply io of
                      Inl e \<Rightarrow> (None, [Geo_request, Weather_request, Log_error])
                    | Inr data \<Rightarrow>
                        (let local_time = (if truthy timezone then zone_time io else None) in
                         (case weather_dict data local_time of
                            Inl e \<Rightarrow> (None, [Geo_request, Weather_request, Log_error])
                          | Inr weather_data \<Rightarrow>
                              (Some weather_data, [Geo_request, Weather_request])))))))"

section \<open>Fact extractor\<close>

text \<open>
  What the outside world answers during one call of
  \<^verbatim>\<open>update_memory_from_response\<close>: \<open>extraction\<close> is the outcome of the chat
  completion followed by \<^verbatim>\<open>json.loads\<close> of its content (\<open>Inl APIError\<close> when the call
  raises, \<open>Inl JSONDecodeError\<close> when the content is not JSON), and the three
  \<open>now\<close> fields are the results of the three calls of \<^verbatim>\<open>datetime.now().isoformat()\<close>.
\<close>

record extract_io =
  extraction :: "error + json"
  weather :: weather_io
  now_checked :: string
  now_entry :: string
  now_last :: string

text \<open>\<^verbatim>\<open>if name in extracted_info: d.update(extracted_info[name])\<close>\<close>

definition merge_field :: "string \<Rightarrow> json \<Rightarrow> pydict \<Rightarrow> pydict \<times> error option" where
  "merge_field name extracted_info d =
    (case py_contains name extracted_info of
       Inl e \<Rightarrow> (d, Some e)
     | Inr False \<Rightarrow> (d, None)
     | Inr True \<Rightarrow>
         (case item_str extracted_info name of
            Inl e \<Rightarrow> (d, Some e)
          | Inr x \<Rightarrow> dict_update d x))"

text \<open>
  \<^verbatim>\<open>update_memory_from_response(memory, email_text, email_summary)\<close>, with the global
  \<^verbatim>\<open>WEATHER_API_KEY\<close> as first argument.  The dicts of the profile are updated in
  place, so what was merged before an exception stays merged; the
  \<^verbatim>\<open>except Exception\<close> clause logs the exception and the profile is returned.
\<close>

definition update_memory_from_response ::
  "string option \<Rightarrow> extract_io \<Rightarrow> memory \<Rightarrow> string option \<Rightarrow> string \<Rightarrow> memory \<times> event list" where
  "update_memory_from_response WEATHER_API_KEY io memory email_text email_summary =
    (if \<not> has_text email_text then (memory, [])
     else
       case extraction io of
         Inl e \<Rightarrow> (memory, [Chat_completion, Log_error])
       | Inr extracted_info \<Rightarrow>
           let (core, raised) = merge_field ''core_attributes'' extracted_info (core_attributes memory);
               m1 = memory\<lparr>core_attributes := core\<rparr>
           in if raised \<noteq> None then (m1, [Chat_completion, Log_error])
           else
             let (info, raised) = merge_field ''user_info'' extracted_info (user_info m1);
                 m2 = m1\<lparr>user_info := info\<rparr>
             in if raised \<noteq> None then (m2, [Chat_completion, Log_error])
             else
               let (weather_data, calls) =
                     (if truthy (dict_get (core_attributes m2) ''location'') then
                        get_weather_context WEATHER_API_KEY
                          (dict_get (core_attributes m2) ''location'')
                          (dict_get (core_attributes m2) ''timezone'')
                          (weather io)
                      else (None, []));
                   m3 = (case weather_data of
                           None \<Rightarrow> m2
                         | Some w \<Rightarrow>
                             m2\<lparr>weather_context :=
                                  JObj [(''last_checked'', JStr (now_checked io)),
                                        (''conditions'', w)]\<rparr>);
                   m4 = m3\<lparr>pending_question := None\<rparr>;
                   m5 = m4\<lparr>conversation_history := conversation_history m4 @
                           [JObj [(''timestamp'', JStr (now_entry io)),
                                  (''user_message'', JStr email_summary),
                                  (''extracted_info'', extracted_info)]]\<rparr>
               in (m5\<lparr>last_interaction := Some (now_last io)\<rparr>, Chat_completion # calls))"

section \<open>Profile store\<close>

text \<open>
  The state of a JSON file: absent, present without being JSON, or holding a
  document.  The text of the document is not modelled: \<^verbatim>\<open>json.dump\<close> followed by
  \<^verbatim>\<open>json.load\<close> gives back the document.  The document of
  \<^verbatim>\<open>chatbot_memory.json\<close> is a memory dict.
\<close>

datatype 'a file_state = Missing | Corrupt | Doc 'a

fun is_list :: "coll \<Rightarrow> bool" where
  "is_list (PyList xs) = True"
| "is_list (PySet xs) = False"

text \<open>\<^verbatim>\<open>load_memory()\<close>: the argument is the state of the file.\<close>

definition load_memory :: "memory file_state \<Rightarrow> memory" where
  "load_memory f =
    (case f of
       Doc data \<Rightarrow>
         (let data1 = (if is_list (topics_discussed data)
                       then data\<lparr>topics_discussed := to_set (topics_discussed data)\<rparr>
                       else data);
              data2 = (if is_list (questions_asked data1)
                       then data1\<lparr>questions_asked := to_set (questions_asked data1)\<rparr>
                       else data1)
          in data2)
     | Missing \<Rightarrow> default_memory
     | Corrupt \<Rightarrow> default_memory)"

text \<open>\<^verbatim>\<open>save_memory(memory_data)\<close>: the dict after the call, whose two sets have been
  replaced by lists, and the new state of the file.  The document is the dict;
  \<^verbatim>\<open>json.dump\<close> writes a key that is not a string in its string form, which the
  document does not show.\<close>

definition save_memory :: "memory \<Rightarrow> memory \<times> memory file_state" where
  "save_memory memory_data =
    (let m1 = memory_data\<lparr>topics_discussed := to_list (topics_discussed memory_data)\<rparr>;
         m2 = m1\<lparr>questions_asked := to_list (questions_asked m1)\<rparr>
     in (m2, Doc m2))"

section \<open>Collaborators of the digest\<close>

text \<open>\<^verbatim>\<open>summarize_email_gpt(email_text)\<close>: \<open>reply\<close> is the outcome of the chat
  completion; a failure is logged and raised again.  The prompt is not modelled.\<close>

definition summarize_email_gpt :: "string \<Rightarrow> error + string \<Rightarrow> error + string" where
  "summarize_email_gpt email_text reply =
    (case reply of Inr summary \<Rightarrow> Inr summary | Inl e \<Rightarrow> Inl e)"

text \<open>Iterating a JSON value: the elements of a list, the keys of a dict, the characters
  of a string.\<close>

fun py_iter :: "json \<Rightarrow> error + json list" where
  "py_iter (JArr xs) = Inr xs"
| "py_iter (JObj kvs) = Inr (map (\<lambda>(k, v). JStr k) kvs)"
| "py_iter (JStr s) = Inr (map (\<lambda>c. JStr [c]) s)"
| "py_iter j = Inl TypeError"

text \<open>A list comprehension whose element expression may raise.\<close>

fun map_err :: "('a \<Rightarrow> error + 'b) \<Rightarrow> 'a list \<Rightarrow> error + 'b list" where
  "map_err f [] = Inr []"
| "map_err f (x # xs) = bind_err (f x) (\<lambda>y. bind_err (map_err f xs) (\<lambda>ys. Inr (y # ys)))"

definition news_item :: "json \<Rightarrow> error + json" where
  "news_item article =
    bind_err (item_str article ''title'') (\<lambda>title.
    bind_err (item_str article ''url'') (\<lambda>url.
    bind_err (bind_err (item_str article ''source'') (\<lambda>src. item_str src ''name'')) (\<lambda>source.
    Inr (JObj [(''title'', title), (''url'', url), (''source'', source)]))))"

text \<open>\<^verbatim>\<open>data.get("articles", [])\<close>: only a dict has \<^verbatim>\<open>get\<close>.\<close>

fun articles_of :: "json \<Rightarrow> error + json" where
  "articles_of (JObj kvs) =
    (case map_of kvs ''articles'' of None \<Rightarrow> Inr (JArr []) | Some v \<Rightarrow> Inr v)"
| "articles_of j = Inl AttributeError"

text \<open>
  \<^verbatim>\<open>get_daily_news_headlines()\<close> with the global \<^verbatim>\<open>NEWS_API_KEY\<close> as argument;
  \<open>reply\<close> is the outcome of \<^verbatim>\<open>requests.get(...).json()\<close>, and \<open>exn_str\<close> is the
  interpreter's rendering of an exception in the f-string of the last line.
\<close>

definition get_daily_news_headlines ::
  "(error \<Rightarrow> string) \<Rightarrow> string option \<Rightarrow> error + json \<Rightarrow> json list" where
  "get_daily_news_headlines exn_str NEWS_API_KEY reply =
    (if \<not> has_text NEWS_API_KEY then
       [JObj [(''title'', JStr ''No NEWS_API_KEY found. Please set it in your .env file.''),
              (''url'', JNull)]]
     else
       (case bind_err reply (\<lambda>data. bind_err (articles_of data) (\<lambda>articles.
             bind_err (py_iter articles) (map_err news_item))) of
          Inr news_items \<Rightarrow> news_items
        | Inl e \<Rightarrow>
            [JObj [(''title'', JStr (''Error fetching news: '' @ exn_str e)), (''url'', JNull)]]))"

text \<open>\<^verbatim>\<open>get_random_fact_gpt(news_headlines)\<close>\<close>

definition get_random_fact_gpt :: "json list \<Rightarrow> error + string \<Rightarrow> error + string" where
  "get_random_fact_gpt news_headlines reply =
    (case reply of Inr fact_text \<Rightarrow> Inr fact_text | Inl e \<Rightarrow> Inl e)"

text \<open>\<^verbatim>\<open>get_daily_gossip(news_headlines)\<close>: the titles are collected before the
  \<^verbatim>\<open>try\<close>.\<close>

definition get_daily_gossip :: "json list \<Rightarrow> error + string \<Rightarrow> error + string" where
  "get_daily_gossip news_headlines reply =
    bind_err (map_err (\<lambda>news. item_str news ''title'') news_headlines) (\<lambda>titles.
      case reply of Inr gossip \<Rightarrow> Inr gossip | Inl e \<Rightarrow> Inl e)"

section \<open>Digest composer\<close>

text \<open>One line of \<^verbatim>\<open>news_formatted\<close>.\<close>

definition news_line :: "(json \<Rightarrow> string) \<Rightarrow> json \<Rightarrow> error + string" where
  "news_line py_str news =
    bind_err (item_str news ''title'') (\<lambda>title.
    bind_err (item_str news ''source'') (\<lambda>source.
    bind_err (item_str news ''url'') (\<lambda>url.
    Inr (''- '' @ py_str title @ '' (from '' @ py_str source @ '') - Read more: '' @ py_str url))))"

text \<open>\<^verbatim>\<open>"\n".join(lines)\<close>\<close>

fun join_lines :: "string list \<Rightarrow> string" where
  "join_lines [] = []"
| "join_lines [l] = l"
| "join_lines (l # ls) = l @ [CHR 0x0A] @ join_lines ls"

definition news_formatted :: "(json \<Rightarrow> string) \<Rightarrow> json list \<Rightarrow> error + string" where
  "news_formatted py_str news_list =
    bind_err (map_err (news_line py_str) news_list) (\<lambda>ls. Inr (join_lines ls))"

text \<open>\<^verbatim>\<open>memory.get("weather_context", {}).get("conditions", {})\<close>\<close>

fun conditions_of :: "json \<Rightarrow> error + json" where
  "conditions_of (JObj kvs) =
    (case map_of kvs ''conditions'' of None \<Rightarrow> Inr (JObj []) | Some v \<Rightarrow> Inr v)"
| "conditions_of j = Inl AttributeError"

text \<open>
  \<^verbatim>\<open>build_daily_email_content(inline_response, news_list, random_fact, memory,
  daily_gossip)\<close>: the result or the exception, and the memory dict after the call.
  \<open>compose_reply\<close> is the outcome of the chat completion.  Of the prompt, only the
  parts whose evaluation can raise are modelled.
\<close>

definition build_daily_email_content ::
  "(json \<Rightarrow> string) \<Rightarrow> error + string \<Rightarrow> string \<Rightarrow> json list \<Rightarrow> string \<Rightarrow> memory \<Rightarrow> string
    \<Rightarrow> (error + string) \<times> memory" where
  "build_daily_email_content py_str compose_reply inline_response news_list random_fact memory
      daily_gossip =
    (case conditions_of (weather_context memory) of
       Inl e \<Rightarrow> (Inl e, memory)
     | Inr weather_conditions \<Rightarrow>
         (case news_formatted py_str news_list of
            Inl e \<Rightarrow> (Inl e, memory)
          | Inr news_text \<Rightarrow>
              (let next_question = get_next_question py_str memory in
               (case compose_reply of
                  Inl e \<Rightarrow> (Inl e, memory)
                | Inr content \<Rightarrow>
                    (case next_question of
                       None \<Rightarrow> (Inr content, memory)
                     | Some question \<Rightarrow>
                         if question = [] then (Inr content, memory)
                         else
                           (let m1 = memory\<lparr>pending_question := Some question\<rparr> in
                            (case coll_add question (questions_asked m1) of
                               Inl e \<Rightarrow> (Inl e, m1)
                             | Inr asked \<Rightarrow> (Inr content, m1\<lparr>questions_asked := asked\<rparr>))))))))"

section \<open>The run\<close>

text \<open>
  \<^verbatim>\<open>log_to_json(log_data)\<close> on the state of \<^verbatim>\<open>chat_log.json\<close>: the new state, or
  the exception when the document has no list under \<^verbatim>\<open>messages\<close>.
\<close>

definition log_to_json :: "json \<Rightarrow> json file_state \<Rightarrow> error + json file_state" where
  "log_to_json log_data f =
    (let existing_data = (case f of Doc d \<Rightarrow> d | Missing \<Rightarrow> JObj [(''messages'', JArr [])]
                                   | Corrupt \<Rightarrow> JObj [(''messages'', JArr [])])
     in bind_err (item_str existing_data ''messages'') (\<lambda>messages.
          case (existing_data, messages) of
            (JObj kvs, JArr xs) \<Rightarrow>
              Inr (Doc (JObj (AList.update ''messages'' (JArr (xs @ [log_data])) kvs)))
          | _ \<Rightarrow> Inl AttributeError))"

text \<open>
  An unread email as \<^verbatim>\<open>fetch_emails\<close> returns it, with what the outside world
  answers while \<^verbatim>\<open>main\<close> processes it.
\<close>

record email_in =
  subject :: string
  body_text :: string
  summary_reply :: "error + string"
  extract_replies :: extract_io
  log_time :: string

text \<open>
  What the outside world answers during one run of \<^verbatim>\<open>main\<close>, call by call:
  \<open>inbox\<close> is the outcome of \<^verbatim>\<open>fetch_emails\<close>, the replies are the outcomes of
  the chat completions and of the news request, \<open>send_result\<close> is the exception of
  \<^verbatim>\<open>send_email\<close>, if any.
\<close>

record run_io =
  WEATHER_API_KEY :: "string option"
  NEWS_API_KEY :: "string option"
  inbox :: "error + email_in list"
  response_reply :: "error + string"
  news_reply :: "error + json"
  fact_reply :: "error + string"
  gossip_reply :: "error + string"
  compose_reply :: "error + string"
  hour :: nat
  send_result :: "error option"
  out_log_time :: string

text \<open>The files and the mailbox that the run acts on.\<close>

record world =
  memory_file :: "memory file_state"
  chat_log :: "json file_state"
  outbox :: "(string \<times> string) list"

text \<open>
  The loop of \<^verbatim>\<open>main\<close> over the fetched emails.  The state is the memory, the chat
  log and \<^verbatim>\<open>combined_summaries\<close>; an exception leaves the loop with the state
  reached.
\<close>

fun process_emails ::
  "string option \<Rightarrow> email_in list \<Rightarrow> memory \<times> json file_state \<times> string list
    \<Rightarrow> error option \<times> memory \<times> json file_state \<times> string list" where
  "process_emails key [] st = (None, st)"
| "process_emails key (em # emails) (memory, log, combined_summaries) =
    (case summarize_email_gpt (body_text em) (summary_reply em) of
       Inl e \<Rightarrow> (Some e, memory, log, combined_summaries)
     | Inr summary \<Rightarrow>
         (let memory' = fst (update_memory_from_response key (extract_replies em) memory
                               (Some (body_text em)) summary);
              log_data = JObj [(''timestamp'', JStr (log_time em)),
                               (''direction'', JStr ''incoming''),
                               (''subject'', JStr (subject em)),
                               (''email_text'', JStr (body_text em)),
                               (''gpt_summary'', JStr summary)]
          in (case log_to_json log_data log of
                Inl e \<Rightarrow> (Some e, memory', log, combined_summaries)
              | Inr log' \<Rightarrow>
                  process_emails key emails (memory', log', combined_summaries @ [summary]))))"

text \<open>The subject line for the hour of the day; the bytes after the text are those of
  the source file.\<close>

definition subject_for :: "nat \<Rightarrow> string" where
  "subject_for h =
    (if 4 \<le> h \<and> h < 12 then
       ''Morning chat and updates '' @
         [CHR 0xC3, CHR 0xA2, CHR 0xCB, CHR 0x9C, CHR 0xE2, CHR 0x82, CHR 0xAC, CHR 0xC3, CHR 0xAF,
          CHR 0xC2, CHR 0xB8]
     else if 12 \<le> h \<and> h < 17 then
       ''Afternoon updates and stories '' @
         [CHR 0xC3, CHR 0xB0, CHR 0xC5, CHR 0xB8, CHR 0xC5, CHR 0x92, CHR 0xC2, CHR 0xA4, CHR 0xC3,
          CHR 0xAF, CHR 0xC2, CHR 0xB8]
     else
       ''Evening chat and news '' @
         [CHR 0xC3, CHR 0xB0, CHR 0xC5, CHR 0xB8, CHR 0xC5, CHR 0x92, CHR 0xE2, CHR 0x84, CHR 0xA2])"

text \<open>
  \<^verbatim>\<open>main()\<close>: the exception that ends the run, if any, and the files and the mailbox
  afterwards.  Nothing in \<^verbatim>\<open>main\<close> catches an exception.
\<close>

definition main :: "(json \<Rightarrow> string) \<Rightarrow> (error \<Rightarrow> string) \<Rightarrow> run_io \<Rightarrow> world \<Rightarrow> error option \<times> world" where
  "main py_str exn_str io w =
    (let memory = load_memory (memory_file w) in
     case inbox io of
       Inl e \<Rightarrow> (Some e, w)
     | Inr emails \<Rightarrow>
         (case process_emails (WEATHER_API_KEY io) emails (memory, chat_log w, []) of
            (Some e, memory, log, combined_summaries) \<Rightarrow> (Some e, w\<lparr>chat_log := log\<rparr>)
          | (None, memory, log, combined_summaries) \<Rightarrow>
              (let w1 = w\<lparr>chat_log := log\<rparr> in
               case (if combined_summaries \<noteq> [] then response_reply io
                     else Inr ''(No new emails to respond to today.)'') of
                 Inl e \<Rightarrow> (Some e, w1)
               | Inr inline_response \<Rightarrow>
                   (let news_list = get_daily_news_headlines exn_str (NEWS_API_KEY io) (news_reply io) in
                    case get_random_fact_gpt news_list (fact_reply io) of
                      Inl e \<Rightarrow> (Some e, w1)
                    | Inr random_fact \<Rightarrow>
                        (case get_daily_gossip news_list (gossip_reply io) of
                           Inl e \<Rightarrow> (Some e, w1)
                         | Inr daily_gossip \<Rightarrow>
                             (case build_daily_email_content py_str (compose_reply io)
                                     inline_response news_list random_fact memory daily_gossip of
                                (Inl e, memory) \<Rightarrow> (Some e, w1)
                              | (Inr daily_email_body, memory) \<Rightarrow>
                                  (let subject = subject_for (hour io) in
                                   case send_result io of
                                     Some e \<Rightarrow> (Some e, w1)
                                   | None \<Rightarrow>
                                       (let w2 = w1\<lparr>outbox := outbox w1 @ [(subject, daily_email_body)]\<rparr>;
                                            out_log_data =
                                              JObj [(''timestamp'', JStr (out_log_time io)),
                                                    (''direction'', JStr ''outgoing''),
                                                    (''subject'', JStr subject),
                                                    (''message_body'', JStr daily_email_body)]
                                        in case log_to_json out_log_data (chat_log w2) of
                                             Inl e \<Rightarrow> (Some e, w2)
                                           | Inr log \<Rightarrow>
                                               (None, w2\<lparr>chat_log := log,
                                                         memory_file := snd (save_memory memory)\<rparr>)))))))))"

section \<open>Example profiles and runs\<close>

text \<open>A stand-in for the interpreter's rendering of an exception, for evaluating
  examples.\<close>

fun exn_name :: "error \<Rightarrow> string" where
  "exn_name KeyError = ''KeyError''"
| "exn_name IndexError = ''IndexError''"
| "exn_name TypeError = ''TypeError''"
| "exn_name ValueError = ''ValueError''"
| "exn_name AttributeError = ''AttributeError''"
| "exn_name JSONDecodeError = ''JSONDecodeError''"
| "exn_name APIError = ''APIError''"

text \<open>The profile after the first digest: the first location question has been sent
  and is pending, and the location is still unknown.\<close>

definition waiting_memory :: memory where
  "waiting_memory =
    default_memory
      \<lparr>questions_asked := PySet [location_questions ! 0],
       pending_question := Some (location_questions ! 0)\<rparr>"

text \<open>A profile with the six core attributes known and the question for the name
  pending.\<close>

definition settled_memory :: memory where
  "settled_memory =
    default_memory
      \<lparr>core_attributes :=
         [(JStr ''location'', JStr ''Austin, Texas''),
          (JStr ''timezone'', JStr ''America/Chicago''),
          (JStr ''weather_preference'', JStr ''likes it warm''),
          (JStr ''daily_routine'', JStr ''early bird''),
          (JStr ''local_interests'', JStr ''live music''),
          (JStr ''season_preference'', JStr ''spring'')],
       questions_asked := PySet [snd (basic_questions ! 0)],
       pending_question := Some (snd (basic_questions ! 0))\<rparr>"

text \<open>Profiles without a location: two variants asked, and every variant and the
  fallback asked, the fallback pending.\<close>

definition two_asked_memory :: memory where
  "two_asked_memory =
    default_memory\<lparr>questions_asked := PySet [location_questions ! 1, location_questions ! 0]\<rparr>"

definition exhausted_memory :: memory where
  "exhausted_memory =
    default_memory
      \<lparr>questions_asked := PySet (location_questions @ [location_fallback]),
       pending_question := Some location_fallback\<rparr>"

text \<open>A profile with a known location and a weather snapshot.\<close>

definition austin_memory :: memory where
  "austin_memory =
    default_memory
      \<lparr>core_attributes :=
         dict_set (JStr ''location'') (JStr ''Austin, Texas'') (core_attributes default_memory),
       weather_context :=
         JObj [(''last_checked'', JStr ''2024-05-01T08:00:00''),
               (''conditions'', JObj [(''condition'', JStr ''Clear'')])],
       pending_question := Some ''To help me time these emails better, could you let me know what timezone you're in?''\<rparr>"

text \<open>Replies of the outside world: a weather service that is down, an extraction
  that states the location, one whose \<^verbatim>\<open>user_info\<close> is a number, one that names the
  user, and a chat completion that fails.\<close>

definition weather_down :: weather_io where
  "weather_down = \<lparr>geo_reply = Inl APIError, weather_reply = Inl APIError, zone_time = None\<rparr>"

definition austin_io :: extract_io where
  "austin_io =
    \<lparr>extraction =
       Inr (JObj [(''core_attributes'', JObj [(''location'', JStr ''Austin, Texas'')])]),
     weather = weather_down,
     now_checked = ''2024-05-02T09:00:00'',
     now_entry = ''2024-05-02T09:00:01'',
     now_last = ''2024-05-02T09:00:02''\<rparr>"

definition wrong_shape_io :: extract_io where
  "wrong_shape_io =
    austin_io
      \<lparr>extraction :=
         Inr (JObj [(''core_attributes'', JObj [(''location'', JStr ''Austin, Texas'')]),
                    (''user_info'', JNum 5)])\<rparr>"

definition name_io :: extract_io where
  "name_io =
    austin_io\<lparr>extraction := Inr (JObj [(''user_info'', JObj [(''name'', JStr ''Sam'')])])\<rparr>"

definition failed_io :: extract_io where
  "failed_io = austin_io\<lparr>extraction := Inl APIError\<rparr>"

text \<open>Malformed replies that store nothing: \<^verbatim>\<open>{"user_info": null}\<close> and the number 7.\<close>

definition null_info_io :: extract_io where
  "null_info_io = austin_io\<lparr>extraction := Inr (JObj [(''user_info'', JNull)])\<rparr>"

definition number_io :: extract_io where
  "number_io = austin_io\<lparr>extraction := Inr (JNum 7)\<rparr>"

text \<open>A run with one news article and no unread email; the same run with an SMTP
  failure; and a run with two unread emails, the first of which cannot be summarised.\<close>

definition quiet_run :: run_io where
  "quiet_run =
    \<lparr>WEATHER_API_KEY = Some ''w-key'',
     NEWS_API_KEY = Some ''n-key'',
     inbox = Inr [],
     response_reply = Inr ''Thanks for writing.'',
     news_reply =
       Inr (JObj [(''articles'',
              JArr [JObj [(''title'', JStr ''Rain ahead''),
                          (''url'', JStr ''https://example.org/rain''),
                          (''source'', JObj [(''name'', JStr ''Example News'')])]])]),
     fact_reply = Inr ''Rain falls.'',
     gossip_reply = Inr ''I forgot my umbrella.'',
     compose_reply = Inr ''Hello there!'',
     hour = 9,
     send_result = None,
     out_log_time = ''2024-05-02T09:05:00''\<rparr>"

definition unsent_run :: run_io where
  "unsent_run = quiet_run\<lparr>send_result := Some APIError\<rparr>"

definition first_email :: email_in where
  "first_email =
    \<lparr>subject = ''ChatBot'',
     body_text = ''Hello'',
     summary_reply = Inl APIError,
     extract_replies = name_io,
     log_time = ''2024-05-02T09:01:00''\<rparr>"

definition second_email :: email_in where
  "second_email =
    \<lparr>subject = ''Re: ChatBot'',
     body_text = ''I'm in Austin, Texas'',
     summary_reply = Inr ''The user lives in Austin, Texas.'',
     extract_replies = austin_io,
     log_time = ''2024-05-02T09:02:00''\<rparr>"

definition failing_run :: run_io where
  "failing_run = quiet_run\<lparr>inbox := Inr [first_email, second_email]\<rparr>"

text \<open>A run whose first email is processed and whose second cannot be summarised.\<close>

definition late_failing_run :: run_io where
  "late_failing_run = quiet_run\<lparr>inbox := Inr [second_email, first_email, second_email]\<rparr>"

definition fresh_world :: world where
  "fresh_world = \<lparr>memory_file = Missing, chat_log = Missing, outbox = []\<rparr>"

section \<open>Auxiliary notions for the proofs\<close>

text \<open>A sequence of assignments \<^verbatim>\<open>d[k] = v\<close>, and the assignments that
  \<open>update_seq\<close> makes before it stops.\<close>

definition upds :: "(json \<times> json) list \<Rightarrow> pydict \<Rightarrow> pydict" where
  "upds ps d = fold (\<lambda>(k, v). AList.update k v) ps d"

fun seq_pairs :: "json list \<Rightarrow> (json \<times> json) list" where
  "seq_pairs [] = []"
| "seq_pairs (x # xs) =
    (case pair_of x of
       Inl e \<Rightarrow> []
     | Inr (k, v) \<Rightarrow> if hashable k then (hkey k, v) # seq_pairs xs else [])"

section \<open>Question planner: properties\<close>

lemma find_first:
  "i < length xs \<Longrightarrow> \<forall>j<i. \<not> P (xs ! j) \<Longrightarrow> P (xs ! i) \<Longrightarrow> find P xs = Some (xs ! i)"
proof (induction xs arbitrary: i)
  case Nil
  then show ?case by simp
next
  case (Cons x xs)
  show ?case
  proof (cases i)
    case 0
    with Cons.prems show ?thesis by simp
  next
    case (Suc k)
    with Cons.prems have "\<not> P x" by auto
    moreover have "find P xs = Some (xs ! k)"
      using Cons.prems Suc by (intro Cons.IH) auto
    ultimately show ?thesis using Suc by simp
  qed
qed

text \<open>
  C1 (the code departs from it).  \<^verbatim>\<open>get_next_question\<close> tests \<^verbatim>\<open>pending_question\<close>
  after the six tests of the core attributes.  A pending question (a non-empty string)
  makes it return \<^verbatim>\<open>None\<close> only when all six core attributes are known.  While a
  core attribute is missing, the question for the first missing one is returned, and the
  result does not depend on \<^verbatim>\<open>pending_question\<close>.
\<close>

theorem core_questions_ignore_pending:
  "(list_all (\<lambda>k. truthy (dict_get (core_attributes m) k)) core_keys \<and>
      has_text (pending_question m) \<longrightarrow>
      get_next_question py_str m = None) \<and>
   (\<not> list_all (\<lambda>k. truthy (dict_get (core_attributes m) k)) core_keys \<longrightarrow>
      get_next_question py_str m \<noteq> None \<and>
      get_next_question py_str (m\<lparr>pending_question := p\<rparr>) = get_next_question py_str m) \<and>
   (\<not> truthy (dict_get (core_attributes m) ''location'') \<longrightarrow>
      (\<exists>q. get_next_question py_str m = Some q \<and>
           q \<in> set (location_questions @ [location_fallback]))) \<and>
   (truthy (dict_get (core_attributes m) ''location'') \<and>
      \<not> truthy (dict_get (core_attributes m) ''timezone'') \<longrightarrow>
      get_next_question py_str m =
        Some ''To help me time these emails better, could you let me know what timezone you're in?'') \<and>
   (truthy (dict_get (core_attributes m) ''location'') \<and>
      truthy (dict_get (core_attributes m) ''timezone'') \<and>
      \<not> truthy (dict_get (core_attributes m) ''weather_preference'') \<longrightarrow>
      get_next_question py_str m =
        Some (''How do you typically feel about the weather in ''
              @ py_str (dict_get (core_attributes m) ''location'')
              @ ''? Any favorite conditions?'')) \<and>
   (truthy (dict_get (core_attributes m) ''location'') \<and>
      truthy (dict_get (core_attributes m) ''timezone'') \<and>
      truthy (dict_get (core_attributes m) ''weather_preference'') \<and>
      \<not> truthy (dict_get (core_attributes m) ''daily_routine'') \<longrightarrow>
      get_next_question py_str m =
        Some ''Are you more of an early bird or a night owl? I want to make sure I'm catching you at a good time!'') \<and>
   (truthy (dict_get (core_attributes m) ''location'') \<and>
      truthy (dict_get (core_attributes m) ''timezone'') \<and>
      truthy (dict_get (core_attributes m) ''weather_preference'') \<and>
      truthy (dict_get (core_attributes m) ''daily_routine'') \<and>
      \<not> truthy (dict_get (core_attributes m) ''local_interests'') \<longrightarrow>
      get_next_question py_str m =
        Some (''What kind of local activities or spots do you enjoy in ''
              @ py_str (dict_get (core_attributes m) ''location'') @ ''?'')) \<and>
   (truthy (dict_get (core_attributes m) ''location'') \<and>
      truthy (dict_get (core_attributes m) ''timezone'') \<and>
      truthy (dict_get (core_attributes m) ''weather_preference'') \<and>
      truthy (dict_get (core_attributes m) ''daily_routine'') \<and>
      truthy (dict_get (core_attributes m) ''local_interests'') \<and>
      \<not> truthy (dict_get (core_attributes m) ''season_preference'') \<longrightarrow>
      get_next_question py_str m =
        Some (''With the weather patterns in ''
              @ py_str (dict_get (core_attributes m) ''location'')
              @ '', do you have a favorite season? What makes it special?''))"
proof -
  have loc: "\<not> truthy (dict_get (core_attributes m) ''location'') \<Longrightarrow>
      \<exists>q. get_next_question py_str m = Some q \<and>
          q \<in> set (location_questions @ [location_fallback])"
  proof -
    assume n: "\<not> truthy (dict_get (core_attributes m) ''location'')"
    show ?thesis
    proof (cases "find (\<lambda>question. \<not> coll_mem question (questions_asked m)) location_questions")
      case None
      with n show ?thesis by (simp add: get_next_question_def)
    next
      case (Some q)
      then have "q \<in> set location_questions"
        by (auto simp: find_Some_iff)
      with n Some show ?thesis by (simp add: get_next_question_def)
    qed
  qed
  have known: "list_all (\<lambda>k. truthy (dict_get (core_attributes m) k)) core_keys \<and>
      has_text (pending_question m) \<longrightarrow> get_next_question py_str m = None"
    by (simp add: get_next_question_def core_keys_def)
  have missing: "\<not> list_all (\<lambda>k. truthy (dict_get (core_attributes m) k)) core_keys \<longrightarrow>
      get_next_question py_str m \<noteq> None \<and>
      get_next_question py_str (m\<lparr>pending_question := p\<rparr>) = get_next_question py_str m"
  proof
    assume "\<not> list_all (\<lambda>k. truthy (dict_get (core_attributes m) k)) core_keys"
    then consider
        (location) "\<not> truthy (dict_get (core_attributes m) ''location'')"
      | (timezone) "truthy (dict_get (core_attributes m) ''location'')"
          "\<not> truthy (dict_get (core_attributes m) ''timezone'')"
      | (weather) "truthy (dict_get (core_attributes m) ''location'')"
          "truthy (dict_get (core_attributes m) ''timezone'')"
          "\<not> truthy (dict_get (core_attributes m) ''weather_preference'')"
      | (routine) "truthy (dict_get (core_attributes m) ''location'')"
          "truthy (dict_get (core_attributes m) ''timezone'')"
          "truthy (dict_get (core_attributes m) ''weather_preference'')"
          "\<not> truthy (dict_get (core_attributes m) ''daily_routine'')"
      | (interests) "truthy (dict_get (core_attributes m) ''location'')"
          "truthy (dict_get (core_attributes m) ''timezone'')"
          "truthy (dict_get (core_attributes m) ''weather_preference'')"
          "truthy (dict_get (core_attributes m) ''daily_routine'')"
          "\<not> truthy (dict_get (core_attributes m) ''local_interests'')"
      | (season) "truthy (dict_get (core_attributes m) ''location'')"
          "truthy (dict_get (core_attributes m) ''timezone'')"
          "truthy (dict_get (core_attributes m) ''weather_preference'')"
          "truthy (dict_get (core_attributes m) ''daily_routine'')"
          "truthy (dict_get (core_attributes m) ''local_interests'')"
          "\<not> truthy (dict_get (core_attributes m) ''season_preference'')"
      by (auto simp: core_keys_def)
    then show "get_next_question py_str m \<noteq> None \<and>
        get_next_question py_str (m\<lparr>pending_question := p\<rparr>) = get_next_question py_str m"
    proof cases
      case location
      then show ?thesis by (simp add: get_next_question_def Let_def split: option.split)
    next
      case timezone
      then show ?thesis by (simp add: get_next_question_def Let_def)
    next
      case weather
      then show ?thesis by (simp add: get_next_question_def Let_def)
    next
      case routine
      then show ?thesis by (simp add: get_next_question_def Let_def)
    next
      case interests
      then show ?thesis by (simp add: get_next_question_def Let_def)
    next
      case season
      then show ?thesis by (simp add: get_next_question_def Let_def)
    qed
  qed
  have rest: "(truthy (dict_get (core_attributes m) ''location'') \<and>
      \<not> truthy (dict_get (core_attributes m) ''timezone'') \<longrightarrow>
      get_next_question py_str m =
        Some ''To help me time these emails better, could you let me know what timezone you're in?'') \<and>
   (truthy (dict_get (core_attributes m) ''location'') \<and>
      truthy (dict_get (core_attributes m) ''timezone'') \<and>
      \<not> truthy (dict_get (core_attributes m) ''weather_preference'') \<longrightarrow>
      get_next_question py_str m =
        Some (''How do you typically feel about the weather in ''
              @ py_str (dict_get (core_attributes m) ''location'')
              @ ''? Any favorite conditions?'')) \<and>
   (truthy (dict_get (core_attributes m) ''location'') \<and>
      truthy (dict_get (core_attributes m) ''timezone'') \<and>
      truthy (dict_get (core_attributes m) ''weather_preference'') \<and>
      \<not> truthy (dict_get (core_attributes m) ''daily_routine'') \<longrightarrow>
      get_next_question py_str m =
        Some ''Are you more of an early bird or a night owl? I want to make sure I'm catching you at a good time!'') \<and>
   (truthy (dict_get (core_attributes m) ''location'') \<and>
      truthy (dict_get (core_attributes m) ''timezone'') \<and>
      truthy (dict_get (core_attributes m) ''weather_preference'') \<and>
      truthy (dict_get (core_attributes m) ''daily_routine'') \<and>
      \<not> truthy (dict_get (core_attributes m) ''local_interests'') \<longrightarrow>
      get_next_question py_str m =
        Some (''What kind of local activities or spots do you enjoy in ''
              @ py_str (dict_get (core_attributes m) ''location'') @ ''?'')) \<and>
   (truthy (dict_get (core_attributes m) ''location'') \<and>
      truthy (dict_get (core_attributes m) ''timezone'') \<and>
      truthy (dict_get (core_attributes m) ''weather_preference'') \<and>
      truthy (dict_get (core_attributes m) ''daily_routine'') \<and>
      truthy (dict_get (core_attributes m) ''local_interests'') \<and>
      \<not> truthy (dict_get (core_attributes m) ''season_preference'') \<longrightarrow>
      get_next_question py_str m =
        Some (''With the weather patterns in ''
              @ py_str (dict_get (core_attributes m) ''location'')
              @ '', do you have a favorite season? What makes it special?''))"
    by (simp add: get_next_question_def)
  from known missing loc rest show ?thesis by blast
qed

lemma waiting_facts:
  "\<not> list_all (\<lambda>k. truthy (dict_get (core_attributes waiting_memory) k)) core_keys"
  "has_text (pending_question waiting_memory)"
  "get_next_question plain_str waiting_memory = Some (location_questions ! 1)"
  by (simp_all add: waiting_memory_def default_memory_def get_next_question_def dict_get_def
      coll_mem_def location_questions_def core_keys_def)

lemma austin_facts:
  "truthy (dict_get (core_attributes austin_memory) ''location'')"
  "\<not> truthy (dict_get (core_attributes austin_memory) ''timezone'')"
  "has_text (pending_question austin_memory)"
  by (simp_all add: austin_memory_def default_memory_def dict_get_def dict_set_def)

lemma settled_facts:
  "list_all (\<lambda>k. truthy (dict_get (core_attributes settled_memory) k)) core_keys"
  "has_text (pending_question settled_memory)"
  "\<not> dict_has (user_info settled_memory) ''interests''"
  by (simp_all add: settled_memory_def default_memory_def core_keys_def dict_get_def
      dict_has_def basic_questions_def)

text \<open>
  The failing input of C1 is \<open>waiting_memory\<close>: the first location question is pending,
  the location is unknown, and the planner returns the second location question.  In
  \<open>austin_memory\<close> a question is pending and the timezone is unknown, and the planner
  returns the timezone question.
\<close>

theorem core_questions_ignore_pending_witness:
  "has_text (pending_question waiting_memory) \<and>
   \<not> list_all (\<lambda>k. truthy (dict_get (core_attributes waiting_memory) k)) core_keys \<and>
   get_next_question plain_str waiting_memory = Some (location_questions ! 1) \<and>
   get_next_question plain_str waiting_memory \<noteq> None \<and>
   has_text (pending_question austin_memory) \<and>
   get_next_question plain_str austin_memory =
     Some ''To help me time these emails better, could you let me know what timezone you're in?'' \<and>
   list_all (\<lambda>k. truthy (dict_get (core_attributes settled_memory) k)) core_keys \<and>
   has_text (pending_question settled_memory) \<and>
   \<not> dict_has (user_info settled_memory) ''interests'' \<and>
   get_next_question plain_str settled_memory = None"
proof -
  have a: "get_next_question plain_str waiting_memory \<noteq> None"
    using core_questions_ignore_pending [where m = waiting_memory and py_str = plain_str]
      waiting_facts(1) by blast
  have b: "get_next_question plain_str austin_memory =
     Some ''To help me time these emails better, could you let me know what timezone you're in?''"
    using core_questions_ignore_pending [where m = austin_memory and py_str = plain_str]
      austin_facts(1,2) by blast
  have c: "get_next_question plain_str settled_memory = None"
    using core_questions_ignore_pending [where m = settled_memory and py_str = plain_str]
      settled_facts(1,2) by blast
  from a b c waiting_facts austin_facts settled_facts show ?thesis by blast
qed

text \<open>
  C2.  When the location is missing (absent, \<^verbatim>\<open>None\<close> or otherwise falsy) there are
  five location questions; the planner returns the first of them that is not in
  \<^verbatim>\<open>questions_asked\<close>; when all five are in \<^verbatim>\<open>questions_asked\<close> it returns the fallback,
  and keeps returning it however \<^verbatim>\<open>questions_asked\<close> grows (the fallback included) and
  whatever is pending.
\<close>

theorem location_question_order:
  assumes "\<not> truthy (dict_get (core_attributes m) ''location'')"
  shows "length location_questions = 5 \<and>
    (\<forall>i<length location_questions.
        (\<forall>j<i. location_questions ! j \<in> elems (questions_asked m)) \<and>
        location_questions ! i \<notin> elems (questions_asked m) \<longrightarrow>
        get_next_question py_str m = Some (location_questions ! i)) \<and>
    ((\<forall>q\<in>set location_questions. q \<in> elems (questions_asked m)) \<longrightarrow>
        get_next_question py_str m = Some location_fallback \<and>
        (\<forall>asked' pending'. elems (questions_asked m) \<subseteq> elems asked' \<longrightarrow>
           get_next_question py_str (m\<lparr>questions_asked := asked', pending_question := pending'\<rparr>)
             = Some location_fallback))"
proof (intro conjI allI impI)
  show "length location_questions = 5"
    by (simp add: location_questions_def)
next
  fix i
  assume "i < length location_questions"
    and "(\<forall>j<i. location_questions ! j \<in> elems (questions_asked m)) \<and>
        location_questions ! i \<notin> elems (questions_asked m)"
  then have "find (\<lambda>question. \<not> coll_mem question (questions_asked m)) location_questions
      = Some (location_questions ! i)"
    by (intro find_first) (auto simp: coll_mem_def)
  with assms show "get_next_question py_str m = Some (location_questions ! i)"
    by (simp add: get_next_question_def)
next
  assume "\<forall>q\<in>set location_questions. q \<in> elems (questions_asked m)"
  then have "find (\<lambda>question. \<not> coll_mem question (questions_asked m)) location_questions = None"
    by (simp add: find_None_iff coll_mem_def)
  with assms show "get_next_question py_str m = Some location_fallback"
    by (simp add: get_next_question_def)
next
  fix asked' pending'
  assume "\<forall>q\<in>set location_questions. q \<in> elems (questions_asked m)"
    and "elems (questions_asked m) \<subseteq> elems asked'"
  then have "find (\<lambda>question. \<not> coll_mem question asked') location_questions = None"
    by (auto simp add: find_None_iff coll_mem_def)
  with assms
  show "get_next_question py_str (m\<lparr>questions_asked := asked', pending_question := pending'\<rparr>)
          = Some location_fallback"
    by (simp add: get_next_question_def)
qed

lemma two_asked_facts:
  "\<not> truthy (dict_get (core_attributes two_asked_memory) ''location'')"
  "location_questions ! 0 \<in> elems (questions_asked two_asked_memory)"
  "location_questions ! 1 \<in> elems (questions_asked two_asked_memory)"
  "location_questions ! 2 \<notin> elems (questions_asked two_asked_memory)"
  by (simp_all add: two_asked_memory_def default_memory_def dict_get_def location_questions_def)

lemma exhausted_facts:
  "\<not> truthy (dict_get (core_attributes exhausted_memory) ''location'')"
  "list_all (\<lambda>q. q \<in> elems (questions_asked exhausted_memory)) location_questions"
  "location_fallback \<in> elems (questions_asked exhausted_memory)"
  "pending_question exhausted_memory = Some location_fallback"
  by (simp_all add: exhausted_memory_def default_memory_def dict_get_def list_all_iff)

theorem location_question_order_witness:
  "\<not> truthy (dict_get (core_attributes two_asked_memory) ''location'') \<and>
   location_questions ! 2 \<notin> elems (questions_asked two_asked_memory) \<and>
   get_next_question plain_str two_asked_memory = Some (location_questions ! 2) \<and>
   \<not> truthy (dict_get (core_attributes exhausted_memory) ''location'') \<and>
   list_all (\<lambda>q. q \<in> elems (questions_asked exhausted_memory)) location_questions \<and>
   location_fallback \<in> elems (questions_asked exhausted_memory) \<and>
   get_next_question plain_str exhausted_memory = Some location_fallback"
proof -
  have len: "(2::nat) < length location_questions"
    by (simp add: location_questions_def)
  have before: "\<forall>j<2. location_questions ! j \<in> elems (questions_asked two_asked_memory)"
    using two_asked_facts(2,3) by (auto simp: less_Suc_eq numeral_2_eq_2)
  have "get_next_question plain_str two_asked_memory = Some (location_questions ! 2)"
    using location_question_order [OF two_asked_facts(1), where py_str = plain_str] len before
      two_asked_facts(4) by blast
  moreover have "get_next_question plain_str exhausted_memory = Some location_fallback"
    using location_question_order [OF exhausted_facts(1), where py_str = plain_str] exhausted_facts(2)
    by (simp add: list_all_iff)
  ultimately show ?thesis
    using two_asked_facts exhausted_facts by simp
qed

section \<open>Fact extractor: properties\<close>

subsection \<open>Repeating a sequence of assignments\<close>

lemma upds_Nil: "upds [] d = d"
  by (simp add: upds_def)

lemma upds_Cons: "upds ((k, v) # ps) d = upds ps (AList.update k v d)"
  by (simp add: upds_def)

lemma update_commute:
  "k \<in> fst ` set al \<Longrightarrow> k \<noteq> k' \<Longrightarrow>
   AList.update k v (AList.update k' v' al) = AList.update k' v' (AList.update k v al)"
  by (induction al) auto

lemma upds_keys: "fst ` set al \<subseteq> fst ` set (upds ps al)"
proof (induction ps arbitrary: al)
  case Nil
  show ?case by (simp add: upds_Nil)
next
  case (Cons p ps)
  obtain k v where p: "p = (k, v)" by (cases p)
  have "fst ` set al \<subseteq> fst ` set (AList.update k v al)"
    by (auto simp: dom_update)
  also have "\<dots> \<subseteq> fst ` set (upds ps (AList.update k v al))"
    by (rule Cons.IH)
  finally show ?case by (simp add: p upds_Cons)
qed

lemma upds_absorb:
  "k \<in> fst ` set al \<Longrightarrow> k \<in> fst ` set ps \<Longrightarrow> upds ps (AList.update k v al) = upds ps al"
proof (induction ps arbitrary: al)
  case Nil
  then show ?case by simp
next
  case (Cons p ps)
  obtain k' v' where p: "p = (k', v')" by (cases p)
  show ?case
  proof (cases "k' = k")
    case True
    then show ?thesis by (simp add: p upds_Cons)
  next
    case False
    with Cons.prems p have kin: "k \<in> fst ` set ps" by auto
    have kin': "k \<in> fst ` set (AList.update k' v' al)"
      using Cons.prems(1) by (auto simp: dom_update)
    have "upds ps (AList.update k' v' (AList.update k v al))
        = upds ps (AList.update k v (AList.update k' v' al))"
      using update_commute [OF Cons.prems(1), of k' v v'] False by simp
    also have "\<dots> = upds ps (AList.update k' v' al)"
      by (rule Cons.IH [OF kin' kin])
    finally show ?thesis by (simp add: p upds_Cons)
  qed
qed

lemma upds_commute:
  "k \<in> fst ` set al \<Longrightarrow> k \<notin> fst ` set ps \<Longrightarrow>
   upds ps (AList.update k v al) = AList.update k v (upds ps al)"
proof (induction ps arbitrary: al)
  case Nil
  then show ?case by (simp add: upds_Nil)
next
  case (Cons p ps)
  obtain k' v' where p: "p = (k', v')" by (cases p)
  from Cons.prems p have ne: "k \<noteq> k'" and kn: "k \<notin> fst ` set ps" by auto
  have kin': "k \<in> fst ` set (AList.update k' v' al)"
    using Cons.prems(1) by (auto simp: dom_update)
  have "upds ps (AList.update k' v' (AList.update k v al))
      = upds ps (AList.update k v (AList.update k' v' al))"
    using update_commute [OF Cons.prems(1) ne, of v v'] by simp
  also have "\<dots> = AList.update k v (upds ps (AList.update k' v' al))"
    by (rule Cons.IH [OF kin' kn])
  finally show ?case by (simp add: p upds_Cons)
qed

lemma upds_map_of_notin: "k \<notin> fst ` set ps \<Longrightarrow> map_of (upds ps al) k = map_of al k"
proof (induction ps arbitrary: al)
  case Nil
  show ?case by (simp add: upds_Nil)
next
  case (Cons p ps)
  obtain k' v' where p: "p = (k', v')" by (cases p)
  with Cons.prems have "k \<noteq> k'" "k \<notin> fst ` set ps" by auto
  then show ?case
    using Cons.IH [of "AList.update k' v' al"] by (simp add: p upds_Cons update_conv')
qed

lemma upds_idem: "upds ps (upds ps al) = upds ps al"
proof (induction ps arbitrary: al)
  case Nil
  show ?case by (simp add: upds_Nil)
next
  case (Cons p ps)
  obtain k v where p: "p = (k, v)" by (cases p)
  let ?d1 = "AList.update k v al"
  let ?d2 = "upds ps ?d1"
  have k1: "k \<in> fst ` set ?d1" by (simp add: dom_update)
  have k2: "k \<in> fst ` set ?d2" using upds_keys [of ?d1 ps] k1 by auto
  have "upds ps (AList.update k v ?d2) = ?d2"
  proof (cases "k \<in> fst ` set ps")
    case True
    then have "upds ps (AList.update k v ?d2) = upds ps ?d2"
      using k2 by (rule upds_absorb [rotated])
    then show ?thesis by (simp add: Cons.IH)
  next
    case False
    have "map_of ?d2 k = Some v"
      using upds_map_of_notin [OF False, of ?d1] by (simp add: update_conv')
    then have t: "AList.update k v ?d2 = ?d2" by (rule update_triv)
    have "upds ps (AList.update k v ?d2) = AList.update k v (upds ps ?d2)"
      using k2 False by (rule upds_commute)
    then show ?thesis by (simp add: Cons.IH t)
  qed
  then show ?case by (simp add: p upds_Cons)
qed

lemma update_seq_upds: "fst (update_seq d xs) = upds (seq_pairs xs) d"
  by (induction xs arbitrary: d) (auto simp: upds_Nil upds_Cons dict_set_def split: sum.splits)

lemma update_seq_err: "snd (update_seq d xs) = snd (update_seq d' xs)"
  by (induction xs arbitrary: d d') (auto split: sum.splits)

lemma fold_upds:
  "fold (\<lambda>(k, v). dict_set (JStr k) v) kvs d = upds (map (\<lambda>(k, v). (JStr k, v)) kvs) d"
  by (induction kvs arbitrary: d) (auto simp: upds_Nil upds_Cons dict_set_def)

lemma const_shape: "\<exists>ps r'. \<forall>d::pydict. (d, r) = (upds ps d, r')"
proof -
  have "\<forall>d::pydict. (d, r) = (upds [] d, r)" by (simp add: upds_Nil)
  then show ?thesis by blast
qed

lemma dict_update_shape: "\<exists>ps r. \<forall>d. dict_update d x = (upds ps d, r)"
proof (cases x)
  case (JObj kvs)
  have "\<forall>d. dict_update d x = (upds (map (\<lambda>(k, v). (JStr k, v)) kvs) d, None)"
    using JObj by (simp add: fold_upds)
  then show ?thesis by blast
next
  case (JArr xs)
  define r where "r = snd (update_seq [] xs)"
  have "\<forall>d. dict_update d x = (upds (seq_pairs xs) d, r)"
  proof
    fix d
    have "fst (update_seq d xs) = upds (seq_pairs xs) d"
      by (rule update_seq_upds)
    moreover have "snd (update_seq d xs) = r"
      unfolding r_def by (rule update_seq_err)
    ultimately have "update_seq d xs = (upds (seq_pairs xs) d, r)"
      by (simp add: prod_eq_iff)
    then show "dict_update d x = (upds (seq_pairs xs) d, r)"
      using JArr by simp
  qed
  then show ?thesis by blast
next
  case (JStr s)
  then show ?thesis
    using const_shape [of "if s = [] then None else Some ValueError"] by simp
next
  case JNull
  then show ?thesis using const_shape [of "Some TypeError"] by simp
next
  case (JBool b)
  then show ?thesis using const_shape [of "Some TypeError"] by simp
next
  case (JNum n)
  then show ?thesis using const_shape [of "Some TypeError"] by simp
qed

lemma merge_field_shape: "\<exists>ps r. \<forall>d. merge_field name x d = (upds ps d, r)"
proof (cases "py_contains name x")
  case (Inl e)
  then show ?thesis using const_shape [of "Some e"] by (simp add: merge_field_def)
next
  case (Inr b)
  note c = this
  show ?thesis
  proof (cases b)
    case False
    then show ?thesis using c const_shape [of None] by (simp add: merge_field_def)
  next
    case True
    show ?thesis
    proof (cases "item_str x name")
      case (Inl e)
      then show ?thesis using c True const_shape [of "Some e"] by (simp add: merge_field_def)
    next
      case (Inr y)
      then show ?thesis using c True dict_update_shape [of y] by (simp add: merge_field_def)
    qed
  qed
qed

lemma merge_field_idem:
  "merge_field name x (fst (merge_field name x d)) = merge_field name x d"
proof -
  obtain ps r where "\<forall>d. merge_field name x d = (upds ps d, r)"
    using merge_field_shape by blast
  then show ?thesis by (simp add: upds_idem)
qed

subsection \<open>What one call does to the two dicts\<close>

lemma update_core:
  "core_attributes (fst (update_memory_from_response key io m email_text s)) =
    (if has_text email_text then
       (case extraction io of
          Inl e \<Rightarrow> core_attributes m
        | Inr x \<Rightarrow> fst (merge_field ''core_attributes'' x (core_attributes m)))
     else core_attributes m)"
  by (simp add: update_memory_from_response_def Let_def
      split: sum.split prod.split option.split)

lemma update_info:
  "user_info (fst (update_memory_from_response key io m email_text s)) =
    (if has_text email_text then
       (case extraction io of
          Inl e \<Rightarrow> user_info m
        | Inr x \<Rightarrow>
            if snd (merge_field ''core_attributes'' x (core_attributes m)) \<noteq> None
            then user_info m
            else fst (merge_field ''user_info'' x (user_info m)))
     else user_info m)"
  by (simp add: update_memory_from_response_def Let_def
      split: sum.split prod.split option.split)


subsection \<open>Claims about the fact extractor\<close>

text \<open>
  C3 (as amended).  Whenever the \<^verbatim>\<open>try\<close> block of \<^verbatim>\<open>update_memory_from_response\<close>
  raises (the chat completion raises, its content is not JSON, or one of the two merges
  raises on a reply of the wrong shape), the function does not raise: it logs the failure
  after its one external call and returns the profile with every field but
  \<^verbatim>\<open>core_attributes\<close> and \<^verbatim>\<open>user_info\<close> as it was (\<^verbatim>\<open>pending_question\<close>,
  \<^verbatim>\<open>conversation_history\<close>, \<^verbatim>\<open>last_interaction\<close> and \<^verbatim>\<open>weather_context\<close> included), and
  with these two dicts holding what the merges stored before the exception.  The
  profile is returned as it was when the call raises or its content is not JSON, when
  the reply is \<^verbatim>\<open>null\<close>, a boolean or a number, and whenever the merges have stored
  nothing before the exception.
\<close>

theorem failed_extraction_keeps_profile:
  assumes "has_text email_text"
  shows
    "(extraction io = Inl e \<longrightarrow>
        update_memory_from_response key io m email_text s = (m, [Chat_completion, Log_error])) \<and>
     (extraction io = Inr x \<and> (x = JNull \<or> x = JBool b \<or> x = JNum n) \<longrightarrow>
        update_memory_from_response key io m email_text s = (m, [Chat_completion, Log_error])) \<and>
     (extraction io = Inr x \<and>
        merge_field ''core_attributes'' x (core_attributes m) = (core, Some e1) \<longrightarrow>
        update_memory_from_response key io m email_text s
          = (m\<lparr>core_attributes := core\<rparr>, [Chat_completion, Log_error])) \<and>
     (extraction io = Inr x \<and>
        merge_field ''core_attributes'' x (core_attributes m) = (core, None) \<and>
        merge_field ''user_info'' x (user_info m) = (info, Some e2) \<longrightarrow>
        update_memory_from_response key io m email_text s
          = (m\<lparr>core_attributes := core, user_info := info\<rparr>, [Chat_completion, Log_error])) \<and>
     (extraction io = Inr x \<and>
        merge_field ''core_attributes'' x (core_attributes m) = (core_attributes m, None) \<and>
        merge_field ''user_info'' x (user_info m) = (user_info m, Some e2) \<longrightarrow>
        update_memory_from_response key io m email_text s = (m, [Chat_completion, Log_error]))"
proof (intro conjI impI)
  assume "extraction io = Inl e"
  with assms show "update_memory_from_response key io m email_text s
      = (m, [Chat_completion, Log_error])"
    by (simp add: update_memory_from_response_def)
next
  assume a: "extraction io = Inr x \<and> (x = JNull \<or> x = JBool b \<or> x = JNum n)"
  then have "merge_field ''core_attributes'' x (core_attributes m)
      = (core_attributes m, Some TypeError)"
    by (auto simp: merge_field_def)
  with a assms show "update_memory_from_response key io m email_text s
      = (m, [Chat_completion, Log_error])"
    by (simp add: update_memory_from_response_def)
next
  assume "extraction io = Inr x \<and>
      merge_field ''core_attributes'' x (core_attributes m) = (core, Some e1)"
  with assms show "update_memory_from_response key io m email_text s
      = (m\<lparr>core_attributes := core\<rparr>, [Chat_completion, Log_error])"
    by (simp add: update_memory_from_response_def)
next
  assume "extraction io = Inr x \<and>
      merge_field ''core_attributes'' x (core_attributes m) = (core, None) \<and>
      merge_field ''user_info'' x (user_info m) = (info, Some e2)"
  with assms show "update_memory_from_response key io m email_text s
      = (m\<lparr>core_attributes := core, user_info := info\<rparr>, [Chat_completion, Log_error])"
    by (simp add: update_memory_from_response_def)
next
  assume "extraction io = Inr x \<and>
      merge_field ''core_attributes'' x (core_attributes m) = (core_attributes m, None) \<and>
      merge_field ''user_info'' x (user_info m) = (user_info m, Some e2)"
  with assms show "update_memory_from_response key io m email_text s
      = (m, [Chat_completion, Log_error])"
    by (simp add: update_memory_from_response_def)
qed

lemma failing_reply_facts:
  "has_text (Some ''Hello'')"
  "extraction failed_io = Inl APIError"
  "extraction number_io = Inr (JNum 7)"
  "extraction null_info_io = Inr (JObj [(''user_info'', JNull)])"
  "merge_field ''core_attributes'' (JObj [(''user_info'', JNull)]) (core_attributes waiting_memory)
     = (core_attributes waiting_memory, None)"
  "merge_field ''user_info'' (JObj [(''user_info'', JNull)]) (user_info waiting_memory)
     = (user_info waiting_memory, Some TypeError)"
  by (simp_all add: failed_io_def number_io_def null_info_io_def austin_io_def merge_field_def)

lemma wrong_shape_facts:
  "extraction wrong_shape_io =
     Inr (JObj [(''core_attributes'', JObj [(''location'', JStr ''Austin, Texas'')]),
                (''user_info'', JNum 5)])"
  "merge_field ''core_attributes''
     (JObj [(''core_attributes'', JObj [(''location'', JStr ''Austin, Texas'')]),
            (''user_info'', JNum 5)]) (core_attributes waiting_memory)
     = (dict_set (JStr ''location'') (JStr ''Austin, Texas'') (core_attributes waiting_memory),
        None)"
  "merge_field ''user_info''
     (JObj [(''core_attributes'', JObj [(''location'', JStr ''Austin, Texas'')]),
            (''user_info'', JNum 5)]) (user_info waiting_memory)
     = (user_info waiting_memory, Some TypeError)"
  by (simp_all add: wrong_shape_io_def austin_io_def merge_field_def)

theorem failed_extraction_keeps_profile_witness:
  "pending_question waiting_memory = Some (location_questions ! 0) \<and>
   extraction failed_io = Inl APIError \<and>
   update_memory_from_response (Some ''w-key'') failed_io waiting_memory (Some ''Hello'')
      ''A greeting.'' = (waiting_memory, [Chat_completion, Log_error]) \<and>
   extraction number_io = Inr (JNum 7) \<and>
   update_memory_from_response (Some ''w-key'') number_io waiting_memory (Some ''Hello'')
      ''A greeting.'' = (waiting_memory, [Chat_completion, Log_error]) \<and>
   extraction null_info_io = Inr (JObj [(''user_info'', JNull)]) \<and>
   update_memory_from_response (Some ''w-key'') null_info_io waiting_memory (Some ''Hello'')
      ''A greeting.'' = (waiting_memory, [Chat_completion, Log_error]) \<and>
   update_memory_from_response (Some ''w-key'') wrong_shape_io waiting_memory (Some ''Hello'')
      ''A greeting.''
     = (waiting_memory
          \<lparr>core_attributes :=
             dict_set (JStr ''location'') (JStr ''Austin, Texas'') (core_attributes waiting_memory)\<rparr>,
        [Chat_completion, Log_error]) \<and>
   pending_question
     (fst (update_memory_from_response (Some ''w-key'') wrong_shape_io waiting_memory
             (Some ''Hello'') ''A greeting.'')) = Some (location_questions ! 0)"
proof -
  have p: "pending_question waiting_memory = Some (location_questions ! 0)"
    by (simp add: waiting_memory_def)
  have a: "update_memory_from_response (Some ''w-key'') failed_io waiting_memory (Some ''Hello'')
      ''A greeting.'' = (waiting_memory, [Chat_completion, Log_error])"
    using failed_extraction_keeps_profile [OF failing_reply_facts(1),
        where io = failed_io and e = APIError and key = "Some ''w-key''"
          and m = waiting_memory and s = "''A greeting.''"]
      failing_reply_facts(2) by blast
  have b: "update_memory_from_response (Some ''w-key'') number_io waiting_memory (Some ''Hello'')
      ''A greeting.'' = (waiting_memory, [Chat_completion, Log_error])"
    using failed_extraction_keeps_profile [OF failing_reply_facts(1),
        where io = number_io and x = "JNum 7" and n = 7 and key = "Some ''w-key''"
          and m = waiting_memory and s = "''A greeting.''"]
      failing_reply_facts(3) by blast
  have c: "update_memory_from_response (Some ''w-key'') null_info_io waiting_memory (Some ''Hello'')
      ''A greeting.'' = (waiting_memory, [Chat_completion, Log_error])"
    using failed_extraction_keeps_profile [OF failing_reply_facts(1),
        where io = null_info_io and x = "JObj [(''user_info'', JNull)]" and ?e2.0 = TypeError
          and key = "Some ''w-key''" and m = waiting_memory and s = "''A greeting.''"]
      failing_reply_facts(4,5,6) by blast
  have d: "update_memory_from_response (Some ''w-key'') wrong_shape_io waiting_memory (Some ''Hello'')
      ''A greeting.''
     = (waiting_memory
          \<lparr>core_attributes :=
             dict_set (JStr ''location'') (JStr ''Austin, Texas'') (core_attributes waiting_memory),
           user_info := user_info waiting_memory\<rparr>,
        [Chat_completion, Log_error])"
    using failed_extraction_keeps_profile [OF failing_reply_facts(1),
        where io = wrong_shape_io
          and x = "JObj [(''core_attributes'', JObj [(''location'', JStr ''Austin, Texas'')]),
                         (''user_info'', JNum 5)]"
          and core = "dict_set (JStr ''location'') (JStr ''Austin, Texas'')
                        (core_attributes waiting_memory)"
          and info = "user_info waiting_memory" and ?e2.0 = TypeError
          and key = "Some ''w-key''" and m = waiting_memory and s = "''A greeting.''"]
      wrong_shape_facts by blast
  from d have d': "update_memory_from_response (Some ''w-key'') wrong_shape_io waiting_memory
      (Some ''Hello'') ''A greeting.''
     = (waiting_memory
          \<lparr>core_attributes :=
             dict_set (JStr ''location'') (JStr ''Austin, Texas'') (core_attributes waiting_memory)\<rparr>,
        [Chat_completion, Log_error])"
    by simp
  from d' p have e: "pending_question
     (fst (update_memory_from_response (Some ''w-key'') wrong_shape_io waiting_memory
             (Some ''Hello'') ''A greeting.'')) = Some (location_questions ! 0)"
    by simp
  from p a b c d' e failing_reply_facts(2,3,4) show ?thesis by blast
qed

text \<open>
  C3 (as stated) fails for structured data of the wrong shape: the reply of
  \<open>wrong_shape_io\<close> is JSON whose \<^verbatim>\<open>core_attributes\<close> is a dict and whose
  \<^verbatim>\<open>user_info\<close> is the number 5.  The first merge is done in place, the second raises,
  the exception is logged, and the profile returned has the new location.
\<close>

theorem wrong_shape_counterexample:
  "dict_get (core_attributes default_memory) ''location'' = JNull \<and>
   dict_get (core_attributes
      (fst (update_memory_from_response None wrong_shape_io default_memory
              (Some ''I'm in Austin, Texas'') ''The user lives in Austin, Texas.'')))
      ''location'' = JStr ''Austin, Texas'' \<and>
   fst (update_memory_from_response None wrong_shape_io default_memory
          (Some ''I'm in Austin, Texas'') ''The user lives in Austin, Texas.'') \<noteq> default_memory \<and>
   snd (update_memory_from_response None wrong_shape_io default_memory
          (Some ''I'm in Austin, Texas'') ''The user lives in Austin, Texas.'')
     = [Chat_completion, Log_error]"
proof -
  let ?r = "update_memory_from_response None wrong_shape_io default_memory
              (Some ''I'm in Austin, Texas'') ''The user lives in Austin, Texas.''"
  have a: "dict_get (core_attributes default_memory) ''location'' = JNull"
    by (simp add: default_memory_def dict_get_def)
  have b: "dict_get (core_attributes (fst ?r)) ''location'' = JStr ''Austin, Texas''"
    by (simp add: update_core wrong_shape_io_def austin_io_def merge_field_def
        default_memory_def dict_get_def dict_set_def)
  have c: "snd ?r = [Chat_completion, Log_error]"
    by (simp add: update_memory_from_response_def wrong_shape_io_def austin_io_def
        merge_field_def default_memory_def dict_set_def Let_def)
  from a b have "fst ?r \<noteq> default_memory" by auto
  with a b c show ?thesis by simp
qed

text \<open>
  C7.  Applying the extractor a second time with the same extraction result (whatever
  the weather service and the clock answer the second time) leaves
  \<^verbatim>\<open>core_attributes\<close> and \<^verbatim>\<open>user_info\<close> as the first application left them.
\<close>

theorem merge_twice_same:
  "core_attributes
     (fst (update_memory_from_response key'
        (io\<lparr>weather := w', now_checked := t1, now_entry := t2, now_last := t3\<rparr>)
        (fst (update_memory_from_response key io m email_text s)) email_text s'))
   = core_attributes (fst (update_memory_from_response key io m email_text s)) \<and>
   user_info
     (fst (update_memory_from_response key'
        (io\<lparr>weather := w', now_checked := t1, now_entry := t2, now_last := t3\<rparr>)
        (fst (update_memory_from_response key io m email_text s)) email_text s'))
   = user_info (fst (update_memory_from_response key io m email_text s))"
  by (simp add: update_core update_info merge_field_idem split: sum.split)

theorem merge_twice_same_witness:
  "dict_get (core_attributes
      (fst (update_memory_from_response None austin_io default_memory (Some ''I'm in Austin, Texas'')
              ''The user lives in Austin, Texas.''))) ''location'' = JStr ''Austin, Texas'' \<and>
   core_attributes
     (fst (update_memory_from_response None
        (austin_io\<lparr>weather := weather_down, now_checked := ''t1'', now_entry := ''t2'',
           now_last := ''t3''\<rparr>)
        (fst (update_memory_from_response None austin_io default_memory (Some ''I'm in Austin, Texas'')
                ''The user lives in Austin, Texas.''))
        (Some ''I'm in Austin, Texas'') ''The same again.''))
   = core_attributes
       (fst (update_memory_from_response None austin_io default_memory (Some ''I'm in Austin, Texas'')
               ''The user lives in Austin, Texas.''))"
proof -
  have "dict_get (core_attributes
      (fst (update_memory_from_response None austin_io default_memory (Some ''I'm in Austin, Texas'')
              ''The user lives in Austin, Texas.''))) ''location'' = JStr ''Austin, Texas''"
    by (simp add: update_core austin_io_def merge_field_def default_memory_def dict_get_def
        dict_set_def)
  with merge_twice_same [where key = None and key' = None and io = austin_io
      and w' = weather_down and ?t1.0 = "''t1''" and ?t2.0 = "''t2''" and ?t3.0 = "''t3''"
      and m = default_memory and email_text = "Some ''I'm in Austin, Texas''"
      and s = "''The user lives in Austin, Texas.''" and s' = "''The same again.''"]
  show ?thesis by simp
qed




text \<open>
  C10.  With an email text that is missing (\<^verbatim>\<open>None\<close>) or empty,
  \<^verbatim>\<open>update_memory_from_response\<close> returns the profile as it was and makes no external
  call and logs nothing.
\<close>

theorem empty_text_keeps_profile:
  "update_memory_from_response key io m None s = (m, []) \<and>
   update_memory_from_response key io m (Some []) s = (m, [])"
  by (simp add: update_memory_from_response_def)

theorem empty_text_keeps_profile_witness:
  "pending_question waiting_memory = Some (location_questions ! 0) \<and>
   update_memory_from_response (Some ''w-key'') austin_io waiting_memory None ''Nothing.''
     = (waiting_memory, []) \<and>
   update_memory_from_response (Some ''w-key'') austin_io waiting_memory (Some []) ''Nothing.''
     = (waiting_memory, [])"
proof -
  have "pending_question waiting_memory = Some (location_questions ! 0)"
    by (simp add: waiting_memory_def)
  with empty_text_keeps_profile [where key = "Some ''w-key''" and io = austin_io
      and m = waiting_memory and s = "''Nothing.''"]
  show ?thesis by simp
qed

section \<open>Profile store: properties\<close>

text \<open>
  C6.  Loading what \<^verbatim>\<open>save_memory\<close> wrote gives a profile whose \<^verbatim>\<open>questions_asked\<close>
  and \<^verbatim>\<open>topics_discussed\<close> are sets with the elements of the original ones (which
  \<^verbatim>\<open>save_memory\<close> has turned into lists), and whose \<^verbatim>\<open>last_interaction\<close>, six core
  attribute values, pending question, weather snapshot and history are the original
  ones.
\<close>

theorem save_load_roundtrip:
  "elems (questions_asked (load_memory (snd (save_memory m)))) = elems (questions_asked m) \<and>
   elems (topics_discussed (load_memory (snd (save_memory m)))) = elems (topics_discussed m) \<and>
   \<not> is_list (questions_asked (load_memory (snd (save_memory m)))) \<and>
   \<not> is_list (topics_discussed (load_memory (snd (save_memory m)))) \<and>
   is_list (questions_asked (fst (save_memory m))) \<and>
   is_list (topics_discussed (fst (save_memory m))) \<and>
   last_interaction (load_memory (snd (save_memory m))) = last_interaction m \<and>
   list_all (\<lambda>k. dict_get (core_attributes (load_memory (snd (save_memory m)))) k
                   = dict_get (core_attributes m) k) core_keys \<and>
   pending_question (load_memory (snd (save_memory m))) = pending_question m \<and>
   weather_context (load_memory (snd (save_memory m))) = weather_context m \<and>
   conversation_history (load_memory (snd (save_memory m))) = conversation_history m"
  by (cases "questions_asked m"; cases "topics_discussed m")
     (simp_all add: load_memory_def save_memory_def Let_def core_keys_def)

theorem save_load_roundtrip_witness:
  "questions_asked exhausted_memory = PySet (location_questions @ [location_fallback]) \<and>
   is_list (questions_asked (fst (save_memory exhausted_memory))) \<and>
   elems (questions_asked (load_memory (snd (save_memory exhausted_memory))))
     = set (location_questions @ [location_fallback]) \<and>
   \<not> is_list (questions_asked (load_memory (snd (save_memory exhausted_memory)))) \<and>
   pending_question (load_memory (snd (save_memory exhausted_memory))) = Some location_fallback"
proof -
  have a: "questions_asked exhausted_memory = PySet (location_questions @ [location_fallback])"
    by (simp add: exhausted_memory_def)
  have b: "pending_question exhausted_memory = Some location_fallback"
    by (simp add: exhausted_memory_def)
  from save_load_roundtrip [of exhausted_memory] a b
  show ?thesis by simp
qed

section \<open>Digest and run: properties\<close>

lemma placeholder_line: "news_line py_str (JObj [(''title'', t), (''url'', u)]) = Inl KeyError"
  by (simp add: news_line_def)

text \<open>
  C4 (the code departs from it).  Without \<^verbatim>\<open>NEWS_API_KEY\<close>, or when the request raises,
  \<^verbatim>\<open>get_daily_news_headlines\<close> returns one placeholder item, which has the keys
  \<^verbatim>\<open>title\<close> and \<^verbatim>\<open>url\<close> and no \<^verbatim>\<open>source\<close>; \<^verbatim>\<open>build_daily_email_content\<close>
  reads \<^verbatim>\<open>news['source']\<close> of every item and raises \<^verbatim>\<open>KeyError\<close> on the placeholder,
  whatever the other arguments are.
\<close>

theorem placeholder_breaks_digest:
  "get_daily_news_headlines exn_str None reply =
     [JObj [(''title'', JStr ''No NEWS_API_KEY found. Please set it in your .env file.''),
            (''url'', JNull)]] \<and>
   get_daily_news_headlines exn_str (Some ''n-key'') (Inl e) =
     [JObj [(''title'', JStr (''Error fetching news: '' @ exn_str e)), (''url'', JNull)]] \<and>
   build_daily_email_content py_str creply inline_response
      (get_daily_news_headlines exn_str None reply) random_fact default_memory daily_gossip
     = (Inl KeyError, default_memory) \<and>
   build_daily_email_content py_str creply inline_response
      (get_daily_news_headlines exn_str (Some ''n-key'') (Inl e)) random_fact default_memory
      daily_gossip
     = (Inl KeyError, default_memory)"
  by (simp add: get_daily_news_headlines_def build_daily_email_content_def default_memory_def
      news_formatted_def placeholder_line)

theorem placeholder_breaks_digest_witness:
  "fst (build_daily_email_content plain_str (Inr ''Hello there!'')
         ''(No new emails to respond to today.)''
         (get_daily_news_headlines exn_name None (Inl APIError)) ''Rain falls.'' default_memory
         ''I forgot my umbrella.'')
     = Inl KeyError"
proof -
  have "build_daily_email_content plain_str (Inr ''Hello there!'')
         ''(No new emails to respond to today.)''
         (get_daily_news_headlines exn_name None (Inl APIError)) ''Rain falls.'' default_memory
         ''I forgot my umbrella.'' = (Inl KeyError, default_memory)"
    using placeholder_breaks_digest [where exn_str = exn_name and reply = "Inl APIError"
        and py_str = plain_str and creply = "Inr ''Hello there!''"
        and inline_response = "''(No new emails to respond to today.)''"
        and random_fact = "''Rain falls.''" and daily_gossip = "''I forgot my umbrella.''"]
    by blast
  then show ?thesis by simp
qed

lemma process_emails_raises:
  assumes "summary_reply bad = Inl e"
  shows "fst (process_emails key (pre @ bad # post) st) \<noteq> None"
proof (induction pre arbitrary: st)
  case Nil
  obtain m l c where "st = (m, l, c)" by (cases st)
  then show ?case using assms by (simp add: summarize_email_gpt_def)
next
  case (Cons em pre)
  obtain m l c where st: "st = (m, l, c)" by (cases st)
  show ?case using Cons.IH
    by (simp add: st Let_def split: sum.split)
qed

lemma process_emails_rest:
  assumes "summary_reply bad = Inl e"
  shows "process_emails key (pre @ bad # post) st = process_emails key (pre @ [bad]) st"
proof (induction pre arbitrary: st)
  case Nil
  obtain m l c where "st = (m, l, c)" by (cases st)
  then show ?case using assms by (simp add: summarize_email_gpt_def)
next
  case (Cons em pre)
  obtain m l c where st: "st = (m, l, c)" by (cases st)
  show ?case using Cons.IH
    by (simp add: st Let_def split: sum.split)
qed

lemma process_emails_append:
  "process_emails key (pre @ rest) st =
    (case process_emails key pre st of
       (None, st') \<Rightarrow> process_emails key rest st'
     | (Some e, st') \<Rightarrow> (Some e, st'))"
proof (induction pre arbitrary: st)
  case Nil
  show ?case by simp
next
  case (Cons em pre)
  obtain m l c where st: "st = (m, l, c)" by (cases st)
  show ?case using Cons.IH
    by (simp add: st Let_def split: sum.split)
qed

lemma process_emails_at_failure:
  assumes "summary_reply bad = Inl e" and "process_emails key pre st = (None, m, l, c)"
  shows "process_emails key (pre @ bad # post) st = (Some e, m, l, c)"
  using assms by (simp add: process_emails_append summarize_email_gpt_def)

lemma main_after_loop_error:
  assumes "inbox io = Inr emails"
    and "process_emails (WEATHER_API_KEY io) emails (load_memory (memory_file w), chat_log w, [])
           = (Some e, m, l, c)"
  shows "main py_str exn_str io w = (Some e, w\<lparr>chat_log := l\<rparr>)"
  using assms by (simp add: main_def Let_def)

text \<open>
  C5 (as amended).  \<^verbatim>\<open>summarize_email_gpt\<close> raises its failure again and \<^verbatim>\<open>main\<close> does
  not catch it: when the summarization of one email fails, the run ends with an
  exception, which is that of the summarization when the emails before it were processed
  without one (the chat log then holds their entries and no more); the emails after that
  one are not processed (the run is the one without them), nothing is sent and the
  profile file is not written.
\<close>

theorem summary_failure_aborts_run:
  assumes "inbox io = Inr (pre @ bad # post)" and "summary_reply bad = Inl e"
  shows "fst (main py_str exn_str io w) \<noteq> None \<and>
         main py_str exn_str io w = main py_str exn_str (io\<lparr>inbox := Inr (pre @ [bad])\<rparr>) w \<and>
         memory_file (snd (main py_str exn_str io w)) = memory_file w \<and>
         outbox (snd (main py_str exn_str io w)) = outbox w \<and>
         (process_emails (WEATHER_API_KEY io) pre (load_memory (memory_file w), chat_log w, [])
            = (None, m, l, c) \<longrightarrow>
          main py_str exn_str io w = (Some e, w\<lparr>chat_log := l\<rparr>))"
proof -
  let ?st = "(load_memory (memory_file w), chat_log w, [])"
  let ?p = "process_emails (WEATHER_API_KEY io) (pre @ bad # post) ?st"
  have "fst ?p \<noteq> None"
    using assms(2) by (rule process_emails_raises)
  then obtain e' m' l' c' where p: "?p = (Some e', m', l', c')"
    by (cases ?p) auto
  have p': "process_emails (WEATHER_API_KEY io) (pre @ [bad]) ?st = (Some e', m', l', c')"
    using p process_emails_rest [OF assms(2), where key = "WEATHER_API_KEY io" and pre = pre
        and post = post and st = ?st] by simp
  have a: "main py_str exn_str io w = (Some e', w\<lparr>chat_log := l'\<rparr>)"
    using assms(1) p by (rule main_after_loop_error)
  have b: "main py_str exn_str (io\<lparr>inbox := Inr (pre @ [bad])\<rparr>) w
      = (Some e', w\<lparr>chat_log := l'\<rparr>)"
    using p' by (intro main_after_loop_error [where m = m' and c = c']) simp_all
  have d: "process_emails (WEATHER_API_KEY io) pre ?st = (None, m, l, c) \<longrightarrow>
      main py_str exn_str io w = (Some e, w\<lparr>chat_log := l\<rparr>)"
  proof
    assume "process_emails (WEATHER_API_KEY io) pre ?st = (None, m, l, c)"
    with assms(2) have "?p = (Some e, m, l, c)"
      by (rule process_emails_at_failure)
    with assms(1) show "main py_str exn_str io w = (Some e, w\<lparr>chat_log := l\<rparr>)"
      by (rule main_after_loop_error)
  qed
  from a b d show ?thesis by simp
qed

lemma first_email_fails: "summary_reply first_email = Inl APIError"
  by (simp add: first_email_def)

lemma late_failing_inbox:
  "inbox late_failing_run = Inr ([second_email] @ first_email # [second_email])"
  by (simp add: late_failing_run_def)

lemma late_failing_prefix:
  "process_emails (WEATHER_API_KEY late_failing_run) [second_email]
     (load_memory (memory_file fresh_world), chat_log fresh_world, [])
   = (None,
      fst (update_memory_from_response (Some ''w-key'') austin_io default_memory
             (Some ''I'm in Austin, Texas'') ''The user lives in Austin, Texas.''),
      Doc (JObj [(''messages'',
             JArr [JObj [(''timestamp'', JStr ''2024-05-02T09:02:00''),
                         (''direction'', JStr ''incoming''),
                         (''subject'', JStr ''Re: ChatBot''),
                         (''email_text'', JStr ''I'm in Austin, Texas''),
                         (''gpt_summary'', JStr ''The user lives in Austin, Texas.'')]])]),
      [''The user lives in Austin, Texas.''])"
  by (simp add: late_failing_run_def quiet_run_def second_email_def fresh_world_def
      load_memory_def summarize_email_gpt_def log_to_json_def Let_def)

theorem summary_failure_aborts_run_witness:
  "inbox late_failing_run = Inr [second_email, first_email, second_email] \<and>
   summary_reply first_email = Inl APIError \<and>
   main plain_str exn_name late_failing_run fresh_world
     = (Some APIError,
        fresh_world
          \<lparr>chat_log :=
             Doc (JObj [(''messages'',
               JArr [JObj [(''timestamp'', JStr ''2024-05-02T09:02:00''),
                           (''direction'', JStr ''incoming''),
                           (''subject'', JStr ''Re: ChatBot''),
                           (''email_text'', JStr ''I'm in Austin, Texas''),
                           (''gpt_summary'', JStr ''The user lives in Austin, Texas.'')]])])\<rparr>) \<and>
   memory_file (snd (main plain_str exn_name late_failing_run fresh_world)) = Missing \<and>
   outbox (snd (main plain_str exn_name late_failing_run fresh_world)) = []"
proof -
  note t = summary_failure_aborts_run [OF late_failing_inbox first_email_fails,
      where py_str = plain_str and exn_str = exn_name and w = fresh_world
        and m = "fst (update_memory_from_response (Some ''w-key'') austin_io default_memory
             (Some ''I'm in Austin, Texas'') ''The user lives in Austin, Texas.'')"
        and l = "Doc (JObj [(''messages'',
             JArr [JObj [(''timestamp'', JStr ''2024-05-02T09:02:00''),
                         (''direction'', JStr ''incoming''),
                         (''subject'', JStr ''Re: ChatBot''),
                         (''email_text'', JStr ''I'm in Austin, Texas''),
                         (''gpt_summary'', JStr ''The user lives in Austin, Texas.'')]])])"
        and c = "[''The user lives in Austin, Texas.'']"]
  from t late_failing_prefix
  have a: "main plain_str exn_name late_failing_run fresh_world
     = (Some APIError,
        fresh_world
          \<lparr>chat_log :=
             Doc (JObj [(''messages'',
               JArr [JObj [(''timestamp'', JStr ''2024-05-02T09:02:00''),
                           (''direction'', JStr ''incoming''),
                           (''subject'', JStr ''Re: ChatBot''),
                           (''email_text'', JStr ''I'm in Austin, Texas''),
                           (''gpt_summary'', JStr ''The user lives in Austin, Texas.'')]])])\<rparr>)"
    by blast
  from t have "memory_file (snd (main plain_str exn_name late_failing_run fresh_world))
      = memory_file fresh_world"
    by blast
  then have b: "memory_file (snd (main plain_str exn_name late_failing_run fresh_world)) = Missing"
    by (simp add: fresh_world_def)
  from t have "outbox (snd (main plain_str exn_name late_failing_run fresh_world))
      = outbox fresh_world"
    by blast
  then have c: "outbox (snd (main plain_str exn_name late_failing_run fresh_world)) = []"
    by (simp add: fresh_world_def)
  have d: "inbox late_failing_run = Inr [second_email, first_email, second_email]"
    by (simp add: late_failing_run_def)
  from a b c d first_email_fails show ?thesis by blast
qed

text \<open>
  C5 (as stated) fails: in \<open>failing_run\<close> the summarization of the first of two emails
  fails; the run ends with that exception, and the second email, whose summarization
  would succeed, is never logged or merged: the chat log and the outbox are untouched.
\<close>

theorem summary_failure_counterexample:
  "summary_reply second_email = Inr ''The user lives in Austin, Texas.'' \<and>
   main plain_str exn_name failing_run fresh_world = (Some APIError, fresh_world) \<and>
   chat_log (snd (main plain_str exn_name failing_run fresh_world)) = Missing"
  by (simp add: main_def failing_run_def quiet_run_def first_email_def second_email_def
      fresh_world_def summarize_email_gpt_def Let_def)

lemma build_compose_fails:
  "isl creply \<Longrightarrow> isl (fst (build_daily_email_content py_str creply a b c m d))"
  by (auto simp: build_daily_email_content_def Let_def isl_def split: sum.split)

lemma main_compose_fails:
  assumes "isl (compose_reply io)"
  shows "fst (main py_str exn_str io w) \<noteq> None"
proof -
  have nb: "\<And>a b c m d body m'.
      build_daily_email_content py_str (compose_reply io) a b c m d = (Inr body, m') \<Longrightarrow> False"
  proof -
    fix a b c m d body m'
    assume "build_daily_email_content py_str (compose_reply io) a b c m d = (Inr body, m')"
    moreover have "isl (fst (build_daily_email_content py_str (compose_reply io) a b c m d))"
      using assms by (rule build_compose_fails)
    ultimately show False by simp
  qed
  show ?thesis
    by (auto simp: main_def Let_def split: sum.split prod.split option.split dest: nb)
qed

lemma main_send_fails:
  "send_result io \<noteq> None \<Longrightarrow> fst (main py_str exn_str io w) \<noteq> None"
  by (auto simp: main_def Let_def split: sum.split prod.split option.split)

lemma main_abort_keeps_file:
  "fst (main py_str exn_str io w) \<noteq> None \<Longrightarrow>
   memory_file (snd (main py_str exn_str io w)) = memory_file w"
  by (auto simp: main_def Let_def split: sum.splits prod.splits option.splits)

lemma main_done_sent:
  "fst (main py_str exn_str io w) = None \<Longrightarrow>
   send_result io = None \<and>
   (\<exists>body. outbox (snd (main py_str exn_str io w)) = outbox w @ [(subject_for (hour io), body)]) \<and>
   (\<exists>m. memory_file (snd (main py_str exn_str io w)) = Doc m)"
  by (auto simp: main_def Let_def save_memory_def split: sum.splits prod.splits option.splits)

text \<open>
  C9.  When the chat completion that composes the digest fails or \<^verbatim>\<open>send_email\<close>
  raises, \<^verbatim>\<open>main\<close> ends with an exception; a run that ends with an exception leaves
  the profile file as it was; and a run that ends without one (the only one that writes
  the profile file) has sent the digest.
\<close>

theorem save_only_after_send:
  "(isl (compose_reply io) \<or> send_result io \<noteq> None \<longrightarrow>
      fst (main py_str exn_str io w) \<noteq> None) \<and>
   (fst (main py_str exn_str io w) \<noteq> None \<longrightarrow>
      memory_file (snd (main py_str exn_str io w)) = memory_file w) \<and>
   (fst (main py_str exn_str io w) = None \<longrightarrow>
      send_result io = None \<and>
      (\<exists>body. outbox (snd (main py_str exn_str io w))
                 = outbox w @ [(subject_for (hour io), body)]) \<and>
      (\<exists>m. memory_file (snd (main py_str exn_str io w)) = Doc m))"
  using main_compose_fails [where io = io and py_str = py_str and exn_str = exn_str and w = w]
    main_send_fails [where io = io and py_str = py_str and exn_str = exn_str and w = w]
    main_abort_keeps_file [where io = io and py_str = py_str and exn_str = exn_str and w = w]
    main_done_sent [where io = io and py_str = py_str and exn_str = exn_str and w = w]
  by blast

lemma quiet_run_done: "fst (main plain_str exn_name quiet_run fresh_world) = None"
  by (simp add: main_def quiet_run_def fresh_world_def load_memory_def default_memory_def
      get_daily_news_headlines_def get_random_fact_gpt_def get_daily_gossip_def news_item_def
      build_daily_email_content_def news_formatted_def news_line_def get_next_question_def
      dict_get_def coll_mem_def location_questions_def log_to_json_def Let_def)

lemma unsent_run_fails: "send_result unsent_run = Some APIError"
  by (simp add: unsent_run_def)

theorem save_only_after_send_witness:
  "send_result unsent_run = Some APIError \<and>
   fst (main plain_str exn_name unsent_run fresh_world) \<noteq> None \<and>
   memory_file (snd (main plain_str exn_name unsent_run fresh_world)) = Missing \<and>
   send_result quiet_run = None \<and>
   fst (main plain_str exn_name quiet_run fresh_world) = None \<and>
   memory_file (snd (main plain_str exn_name quiet_run fresh_world)) \<noteq> Missing"
proof -
  have s: "send_result quiet_run = None"
    by (simp add: quiet_run_def)
  have "fst (main plain_str exn_name unsent_run fresh_world) \<noteq> None"
    using save_only_after_send [where io = unsent_run and py_str = plain_str and exn_str = exn_name
        and w = fresh_world] unsent_run_fails
    by simp
  moreover from this
  have "memory_file (snd (main plain_str exn_name unsent_run fresh_world)) = Missing"
    using save_only_after_send [where io = unsent_run and py_str = plain_str and exn_str = exn_name
        and w = fresh_world]
    by (simp add: fresh_world_def)
  moreover have "memory_file (snd (main plain_str exn_name quiet_run fresh_world)) \<noteq> Missing"
    using save_only_after_send [where io = quiet_run and py_str = plain_str and exn_str = exn_name
        and w = fresh_world] quiet_run_done
    by auto
  ultimately show ?thesis
    using unsent_run_fails s quiet_run_done by simp
qed

end
